theory Spec2Isabelle
  imports Complex_Main
begin

section \<open>Beat detector (music-visualization/js/BeatDetector.js)\<close>

text \<open>
  JavaScript numbers are modelled as the real numbers: \<open>+\<close>, \<open>-\<close>, \<open>*\<close>, \<open>/\<close>,
  \<open>Math.sqrt\<close> and the comparisons are the exact ones. The rounding of binary64
  arithmetic is added in a second version of \<open>update\<close> further down, which is used
  where a property depends on it.

  The constructor reads four fields of its \<open>options\<close> object. A field is either absent
  (\<open>undefined\<close>, modelled as \<open>None\<close>) or a number.
\<close>

record options =
  opt_sensitivity :: "real option"
  opt_decayRate :: "real option"
  opt_cooldownMs :: "real option"
  opt_historyLength :: "real option"

text \<open>\<open>v || d\<close> on a field that is absent or a number: \<open>undefined\<close> and \<open>0\<close> are falsy.\<close>

definition or_default :: "real option \<Rightarrow> real \<Rightarrow> real" where
  "or_default v d = (case v of None \<Rightarrow> d | Some x \<Rightarrow> if x = 0 then d else x)"

record BeatDetector =
  sensitivity :: real
  decayRate :: real
  cooldownMs :: real
  historyLength :: real
  energyHistory :: "real list"
  lastBeatTime :: real
  beatIntensity :: real
  p_isBeat :: bool
  beatCount :: nat
  beatTimes :: "real list"
  estimatedBPM :: real

definition constructor :: "options \<Rightarrow> BeatDetector" where
  "constructor opts =
     \<lparr> sensitivity = or_default (opt_sensitivity opts) 1.4,
       decayRate = or_default (opt_decayRate opts) 0.93,
       cooldownMs = or_default (opt_cooldownMs opts) 180,
       historyLength = or_default (opt_historyLength opts) 30,
       energyHistory = [],
       lastBeatTime = 0,
       beatIntensity = 0,
       p_isBeat = False,
       beatCount = 0,
       beatTimes = [],
       estimatedBPM = 0 \<rparr>"

text \<open>\<open>Math.round\<close>: the nearest integer, a tie going up.\<close>

definition js_round :: "real \<Rightarrow> real" where
  "js_round x = of_int \<lfloor>x + 1 / 2\<rfloor>"

text \<open>
  The \<open>for\<close> loop of \<open>updateTempoEstimate\<close>: \<open>i\<close> runs from \<open>1\<close> to
  \<open>beatTimes.length - 1\<close>, and an interval is pushed when it lies strictly between
  200 and 2000.
\<close>

definition tempo_intervals :: "real list \<Rightarrow> real list" where
  "tempo_intervals bt =
     concat (map (\<lambda>i. let interval = bt ! i - bt ! (i - 1)
                       in if interval > 200 \<and> interval < 2000 then [interval] else [])
                 [1 ..< length bt])"

definition updateTempoEstimate :: "BeatDetector \<Rightarrow> BeatDetector" where
  "updateTempoEstimate d =
     (if length (beatTimes d) < 4 then d
      else
        let intervals = tempo_intervals (beatTimes d)
        in if length intervals < 3 then d
           else
             let sorted_intervals = sort intervals;
                 medianInterval = sorted_intervals ! (length sorted_intervals div 2)
             in d\<lparr>estimatedBPM := js_round (60000 / medianInterval)\<rparr>)"

text \<open>\<open>push\<close> followed by a \<open>shift\<close> when the array has grown past the bound.\<close>

definition push_bounded :: "real \<Rightarrow> real \<Rightarrow> real list \<Rightarrow> real list" where
  "push_bounded bound x xs =
     (let ys = xs @ [x] in if real (length ys) > bound then tl ys else ys)"

definition update :: "real \<Rightarrow> real \<Rightarrow> BeatDetector \<Rightarrow> BeatDetector" where
  "update bassEnergy currentTime d =
     (let h = push_bounded (historyLength d) bassEnergy (energyHistory d);
          d1 = d\<lparr>energyHistory := h\<rparr>
      in if length h < 10 then d1\<lparr>p_isBeat := False\<rparr>
         else
           let avgEnergy = foldl (\<lambda>a b. a + b) 0 h / real (length h);
               variance = foldl (\<lambda>sq n. sq + (n - avgEnergy) ^ 2) 0 h / real (length h);
               stdDev = sqrt variance;
               threshold = avgEnergy + sensitivity d * stdDev;
               timeSinceLastBeat = currentTime - lastBeatTime d;
               d2 = d1\<lparr>p_isBeat := False\<rparr>;
               d3 = (if bassEnergy > threshold \<and>
                        bassEnergy > avgEnergy * sensitivity d \<and>
                        timeSinceLastBeat > cooldownMs d
                     then updateTempoEstimate
                            (d2\<lparr>p_isBeat := True,
                                lastBeatTime := currentTime,
                                beatCount := beatCount d2 + 1,
                                beatIntensity :=
                                  min 1 ((bassEnergy - avgEnergy) / (avgEnergy + 0.01)),
                                beatTimes := push_bounded 16 currentTime (beatTimes d2)\<rparr>)
                     else d2)
           in d3\<lparr>beatIntensity := beatIntensity d3 * decayRate d3\<rparr>)"

definition isBeat :: "BeatDetector \<Rightarrow> bool" where
  "isBeat d = p_isBeat d"

definition getBeatIntensity :: "BeatDetector \<Rightarrow> real" where
  "getBeatIntensity d = beatIntensity d"

definition getBPM :: "BeatDetector \<Rightarrow> real" where
  "getBPM d = estimatedBPM d"

definition getBeatCount :: "BeatDetector \<Rightarrow> nat" where
  "getBeatCount d = beatCount d"

definition reset :: "BeatDetector \<Rightarrow> BeatDetector" where
  "reset d =
     d\<lparr>energyHistory := [],
       beatTimes := [],
       lastBeatTime := 0,
       beatIntensity := 0,
       p_isBeat := False,
       beatCount := 0,
       estimatedBPM := 0\<rparr>"

text \<open>
  A session is a list of calls \<open>update(energy, t)\<close>, given as pairs. \<open>run\<close> is the
  detector after the whole list, \<open>states\<close> the detector after each call, in order.
\<close>

fun run :: "BeatDetector \<Rightarrow> (real \<times> real) list \<Rightarrow> BeatDetector" where
  "run d [] = d"
| "run d ((e, t) # rest) = run (update e t d) rest"

fun states :: "BeatDetector \<Rightarrow> (real \<times> real) list \<Rightarrow> BeatDetector list" where
  "states d [] = []"
| "states d ((e, t) # rest) = update e t d # states (update e t d) rest"

text \<open>What a caller can observe of a detector.\<close>

definition observe :: "BeatDetector \<Rightarrow> bool \<times> real \<times> real \<times> nat" where
  "observe d = (isBeat d, getBeatIntensity d, getBPM d, getBeatCount d)"

text \<open>
  A detector's life is a list of calls of \<open>update\<close> and \<open>reset\<close>; the states reachable
  from \<open>new BeatDetector(opts)\<close> are \<open>run_calls (constructor opts) cs\<close>.
\<close>

datatype call = Update real real | Reset

fun apply_call :: "BeatDetector \<Rightarrow> call \<Rightarrow> BeatDetector" where
  "apply_call d (Update e t) = update e t d"
| "apply_call d Reset = reset d"

definition run_calls :: "BeatDetector \<Rightarrow> call list \<Rightarrow> BeatDetector" where
  "run_calls d cs = foldl apply_call d cs"

text \<open>\<open>new BeatDetector()\<close>: no option given.\<close>

definition default_options :: options where
  "default_options =
     \<lparr> opt_sensitivity = None, opt_decayRate = None,
       opt_cooldownMs = None, opt_historyLength = None \<rparr>"

subsection \<open>The quantities of one call of \<open>update\<close>\<close>

text \<open>
  Names for the local values of \<open>update\<close>, used to state what a call does: the window
  after the push, its mean and standard deviation, and the condition of the \<open>if\<close> that
  declares a beat (with the warm-up guard in front of it). The lemmas \<open>update_p_isBeat\<close>
  to \<open>update_estimatedBPM\<close> below derive them from \<open>update\<close> itself.
\<close>

definition window :: "BeatDetector \<Rightarrow> real \<Rightarrow> real list" where
  "window d e = push_bounded (historyLength d) e (energyHistory d)"

definition mean :: "real list \<Rightarrow> real" where
  "mean h = sum_list h / real (length h)"

definition deviation :: "real list \<Rightarrow> real" where
  "deviation h = sqrt (sum_list (map (\<lambda>n. (n - mean h) ^ 2) h) / real (length h))"

definition fires :: "BeatDetector \<Rightarrow> real \<Rightarrow> real \<Rightarrow> bool" where
  "fires d e t \<longleftrightarrow>
     10 \<le> length (window d e) \<and>
     e > mean (window d e) + sensitivity d * deviation (window d e) \<and>
     e > mean (window d e) * sensitivity d \<and>
     t - lastBeatTime d > cooldownMs d"

subsection \<open>The spike scenario\<close>

text \<open>
  Ten zeros, a spike of 1 at the eleventh sample, then \<open>n\<close> zeros; sample \<open>i\<close> (from 0)
  has the timestamp \<open>t0 + 16 i\<close>.
\<close>

definition spike_inputs :: "real \<Rightarrow> nat \<Rightarrow> (real \<times> real) list" where
  "spike_inputs t0 n =
     map (\<lambda>i. (if i = 10 then 1 else 0, t0 + 16 * real i)) [0 ..< 11 + n]"

subsection \<open>The tempo rule, stated on the list of beat timestamps\<close>

text \<open>
  The timestamps of the updates of a session after which \<open>isBeat()\<close> is true, in order;
  the last \<open>n\<close> elements of a list; the differences of neighbours; and the element
  that \<open>updateTempoEstimate\<close> calls the median, the one at index \<open>\<lfloor>length / 2\<rfloor>\<close> of the
  list sorted in ascending order.
\<close>

definition beat_stamps :: "BeatDetector \<Rightarrow> (real \<times> real) list \<Rightarrow> real list" where
  "beat_stamps d inputs =
     map (\<lambda>p. snd (fst p)) (filter (\<lambda>p. isBeat (snd p)) (zip inputs (states d inputs)))"

definition last_n :: "nat \<Rightarrow> 'a list \<Rightarrow> 'a list" where
  "last_n n xs = drop (length xs - n) xs"

fun consecutive_intervals :: "real list \<Rightarrow> real list" where
  "consecutive_intervals (a # b # rest) = (b - a) # consecutive_intervals (b # rest)"
| "consecutive_intervals [a] = []"
| "consecutive_intervals [] = []"

definition median_interval :: "real list \<Rightarrow> real" where
  "median_interval xs = sort xs ! (length xs div 2)"

text \<open>
  The estimate as the specification words it: intervals outside the closed range
  \<open>[200, 2000]\<close> are discarded, and the estimate is 60000 divided by the median.
\<close>

definition claimed_bpm :: "real \<Rightarrow> real list \<Rightarrow> real" where
  "claimed_bpm previous bt =
     (let valid = filter (\<lambda>x. 200 \<le> x \<and> x \<le> 2000) (consecutive_intervals bt)
      in if 4 \<le> length bt \<and> 3 \<le> length valid
         then 60000 / median_interval valid
         else previous)"

text \<open>
  The estimate as the code computes it: an interval counts when it is strictly between
  200 and 2000, and the quotient is rounded to the nearest integer.
\<close>

definition tempo_estimate :: "real \<Rightarrow> real list \<Rightarrow> real" where
  "tempo_estimate previous bt =
     (let valid = filter (\<lambda>x. 200 < x \<and> x < 2000) (consecutive_intervals bt)
      in if 4 \<le> length bt \<and> 3 \<le> length valid
         then js_round (60000 / median_interval valid)
         else previous)"

text \<open>
  Four impulses \<open>gap\<close> ms apart, the first at 1000 ms, each after nine zeros (which
  carry the timestamp of the impulse that follows them).
\<close>

definition impulse_train :: "real \<Rightarrow> (real \<times> real) list" where
  "impulse_train gap =
     concat (map (\<lambda>k. replicate 9 (0, 1000 + gap * real k) @ [(1, 1000 + gap * real k)])
                 [0 ..< 4])"

subsection \<open>The same update in binary64 arithmetic\<close>

text \<open>
  A JavaScript number is an IEEE 754 binary64 value, and \<open>+\<close>, \<open>-\<close>, \<open>*\<close>, \<open>/\<close> and
  \<open>Math.sqrt\<close> return the exact result rounded to the nearest binary64 value, a tie
  going to the even significand. \<open>binary64 x\<close> is that rounding of a real \<open>x\<close> of
  normal magnitude (\<open>2\<^sup>-\<^sup>1\<^sup>0\<^sup>2\<^sup>2 \<le> |x| < 2\<^sup>1\<^sup>0\<^sup>2\<^sup>4\<close>): with \<open>2\<^sup>e \<le> |x| < 2\<^sup>e\<^sup>+\<^sup>1\<close> the binary64
  values near \<open>x\<close> are the integer multiples of \<open>2\<^sup>e\<^sup>-\<^sup>5\<^sup>2\<close>. Overflow, subnormal numbers
  and NaN are not modelled.
\<close>

definition round_half_even :: "real \<Rightarrow> int" where
  "round_half_even q =
     (let f = \<lfloor>q\<rfloor>; r = q - of_int f
      in if r < 1 / 2 then f else if 1 / 2 < r then f + 1 else if even f then f else f + 1)"

definition binary64 :: "real \<Rightarrow> real" where
  "binary64 x =
     (if x = 0 then 0
      else let e = \<lfloor>log 2 \<bar>x\<bar>\<rfloor>
           in of_int (round_half_even (x * 2 powi (52 - e))) * 2 powi (e - 52))"

text \<open>
  The constructor, \<open>updateTempoEstimate\<close> and \<open>update\<close> once more, statement by
  statement as above, with a rounding \<open>rnd\<close> applied to every literal that is stored
  and to the result of every arithmetic operation (\<open>Math.pow(x, 2)\<close> is taken as
  the rounded square). With the identity for \<open>rnd\<close> they are the functions above; with
  \<open>binary64\<close> they compute what the code computes on binary64 arguments.
\<close>

definition constructor_rounded :: "(real \<Rightarrow> real) \<Rightarrow> options \<Rightarrow> BeatDetector" where
  "constructor_rounded rnd opts =
     \<lparr> sensitivity = or_default (opt_sensitivity opts) (rnd 1.4),
       decayRate = or_default (opt_decayRate opts) (rnd 0.93),
       cooldownMs = or_default (opt_cooldownMs opts) (rnd 180),
       historyLength = or_default (opt_historyLength opts) (rnd 30),
       energyHistory = [],
       lastBeatTime = 0,
       beatIntensity = 0,
       p_isBeat = False,
       beatCount = 0,
       beatTimes = [],
       estimatedBPM = 0 \<rparr>"

definition tempo_intervals_rounded :: "(real \<Rightarrow> real) \<Rightarrow> real list \<Rightarrow> real list" where
  "tempo_intervals_rounded rnd bt =
     concat (map (\<lambda>i. let interval = rnd (bt ! i - bt ! (i - 1))
                       in if interval > 200 \<and> interval < 2000 then [interval] else [])
                 [1 ..< length bt])"

definition updateTempoEstimate_rounded ::
    "(real \<Rightarrow> real) \<Rightarrow> BeatDetector \<Rightarrow> BeatDetector" where
  "updateTempoEstimate_rounded rnd d =
     (if length (beatTimes d) < 4 then d
      else
        let intervals = tempo_intervals_rounded rnd (beatTimes d)
        in if length intervals < 3 then d
           else
             let sorted_intervals = sort intervals;
                 medianInterval = sorted_intervals ! (length sorted_intervals div 2)
             in d\<lparr>estimatedBPM := js_round (rnd (60000 / medianInterval))\<rparr>)"

definition update_rounded ::
    "(real \<Rightarrow> real) \<Rightarrow> real \<Rightarrow> real \<Rightarrow> BeatDetector \<Rightarrow> BeatDetector" where
  "update_rounded rnd bassEnergy currentTime d =
     (let h = push_bounded (historyLength d) bassEnergy (energyHistory d);
          d1 = d\<lparr>energyHistory := h\<rparr>
      in if length h < 10 then d1\<lparr>p_isBeat := False\<rparr>
         else
           let avgEnergy = rnd (foldl (\<lambda>a b. rnd (a + b)) 0 h / real (length h));
               variance =
                 rnd (foldl (\<lambda>sq n. rnd (sq + rnd (rnd (n - avgEnergy) ^ 2))) 0 h /
                      real (length h));
               stdDev = rnd (sqrt variance);
               threshold = rnd (avgEnergy + rnd (sensitivity d * stdDev));
               timeSinceLastBeat = rnd (currentTime - lastBeatTime d);
               d2 = d1\<lparr>p_isBeat := False\<rparr>;
               d3 = (if bassEnergy > threshold \<and>
                        bassEnergy > rnd (avgEnergy * sensitivity d) \<and>
                        timeSinceLastBeat > cooldownMs d
                     then updateTempoEstimate_rounded rnd
                            (d2\<lparr>p_isBeat := True,
                                lastBeatTime := currentTime,
                                beatCount := beatCount d2 + 1,
                                beatIntensity :=
                                  min 1 (rnd (rnd (bassEnergy - avgEnergy) /
                                              rnd (avgEnergy + rnd 0.01))),
                                beatTimes := push_bounded 16 currentTime (beatTimes d2)\<rparr>)
                     else d2)
           in d3\<lparr>beatIntensity := rnd (beatIntensity d3 * decayRate d3)\<rparr>)"

fun run_rounded ::
    "(real \<Rightarrow> real) \<Rightarrow> BeatDetector \<Rightarrow> (real \<times> real) list \<Rightarrow> BeatDetector" where
  "run_rounded rnd d [] = d"
| "run_rounded rnd d ((e, t) # rest) = run_rounded rnd (update_rounded rnd e t d) rest"

section \<open>Demo runner (DemoRunner and BaseDemo of the visual-effects gallery)\<close>

text \<open>
  Option values are JavaScript values; an options object is a finite map from names to
  values. Of a canvas element the model keeps an identity and whether
  \<open>getContext('2d')\<close> yields a context (it yields \<open>null\<close> on a canvas that already has a
  context of another kind).
\<close>

datatype js_value = JNum real | JBool bool | JStr string

type_synonym demo_options = "string \<rightharpoonup> js_value"

record canvas_element =
  canvasId :: nat
  context2d :: bool

datatype js_error = TypeError

text \<open>
  A demo class, which is what the registry holds: its name, what its
  \<open>getDefaultOptions()\<close> returns, and the kind of its \<open>onResize\<close> hook. A hook either
  works on what the constructor has set (the empty hook of \<open>BaseDemo\<close>, \<open>createParticles()\<close>
  of \<open>MouseAttractionDemo\<close>, \<open>this.imageData = null\<close>), or it reads a field that only
  \<open>init()\<close> creates: \<open>this.particles.forEach\<close> in \<open>SimpleParticlesDemo\<close> and
  \<open>this.nodes.forEach\<close> in \<open>ParticleConnectionsDemo\<close>. The field
  \<open>onResizeReadsInitState\<close> is true for the second kind.
\<close>

record demo_class =
  className :: string
  getDefaultOptions :: demo_options
  onResizeReadsInitState :: bool

text \<open>
  The fields of a \<open>BaseDemo\<close> instance that its lifecycle methods read and write:
  \<open>listening\<close> says whether the event listeners of \<open>_setupEventListeners\<close> are attached,
  \<open>initialized\<close> whether \<open>init()\<close> has run (so that the fields it creates exist),
  \<open>initCalls\<close> counts the calls of \<open>init()\<close> and \<open>frameRequests\<close> the calls of
  \<open>requestAnimationFrame\<close>. Clock values and sizes are left out.
\<close>

record BaseDemo =
  demoClass :: demo_class
  demoCanvas :: canvas_element
  demoOptions :: demo_options
  isRunning :: bool
  listening :: bool
  initialized :: bool
  initCalls :: nat
  frameRequests :: nat

text \<open>
  \<open>_resize()\<close>: \<open>this.ctx.scale(dpr, dpr)\<close> throws when \<open>this.ctx\<close> is \<open>null\<close>; then
  \<open>this.onResize()\<close> runs, and a hook that reads a field of \<open>init()\<close> throws when
  \<open>init()\<close> has not run yet.
\<close>

definition BaseDemo_resize :: "BaseDemo \<Rightarrow> js_error + BaseDemo" where
  "BaseDemo_resize d =
     (if \<not> context2d (demoCanvas d) then Inl TypeError
      else if onResizeReadsInitState (demoClass d) \<and> \<not> initialized d then Inl TypeError
      else Inr d)"

text \<open>
  \<open>new DemoClass(canvas, options)\<close>: \<open>{...defaults, ...options}\<close> lets the caller win;
  the constructor ends with \<open>_setupEventListeners()\<close> and \<open>_resize()\<close>, before any
  \<open>init()\<close>.
\<close>

definition BaseDemo_constructor ::
    "demo_class \<Rightarrow> canvas_element \<Rightarrow> demo_options \<Rightarrow> js_error + BaseDemo" where
  "BaseDemo_constructor cls cv opts =
     BaseDemo_resize
       \<lparr> demoClass = cls,
         demoCanvas = cv,
         demoOptions = getDefaultOptions cls ++ opts,
         isRunning = False,
         listening = True,
         initialized = False,
         initCalls = 0,
         frameRequests = 0 \<rparr>"

definition BaseDemo_start :: "BaseDemo \<Rightarrow> BaseDemo" where
  "BaseDemo_start d =
     (if isRunning d then d
      else d\<lparr>isRunning := True,
             initialized := True,
             initCalls := initCalls d + 1,
             frameRequests := frameRequests d + 1\<rparr>)"

definition BaseDemo_stop :: "BaseDemo \<Rightarrow> BaseDemo" where
  "BaseDemo_stop d = d\<lparr>isRunning := False\<rparr>"

definition BaseDemo_destroy :: "BaseDemo \<Rightarrow> BaseDemo" where
  "BaseDemo_destroy d = (BaseDemo_stop d)\<lparr>listening := False\<rparr>"

record DemoRunner =
  registry :: "string \<rightharpoonup> demo_class"
  currentDemo :: "BaseDemo option"
  canvas :: "canvas_element option"
  currentOptions :: demo_options

text \<open>
  The runner together with what its methods do outside it: the demos it has destroyed
  and dropped, in order, and the lines written with \<open>console.error\<close>.
\<close>

record page =
  runner :: DemoRunner
  released :: "BaseDemo list"
  console :: "string list"

definition DemoRunner_constructor :: DemoRunner where
  "DemoRunner_constructor =
     \<lparr> registry = Map.empty, currentDemo = None, canvas = None,
       currentOptions = Map.empty \<rparr>"

definition DemoRunner_setCanvas :: "canvas_element option \<Rightarrow> page \<Rightarrow> page" where
  "DemoRunner_setCanvas cv p = p\<lparr>runner := (runner p)\<lparr>canvas := cv\<rparr>\<rparr>"

definition DemoRunner_register :: "string \<Rightarrow> demo_class \<Rightarrow> page \<Rightarrow> page" where
  "DemoRunner_register ident cls p =
     p\<lparr>runner := (runner p)\<lparr>registry := (registry (runner p))(ident \<mapsto> cls)\<rparr>\<rparr>"

definition DemoRunner_stop :: "page \<Rightarrow> page" where
  "DemoRunner_stop p =
     (case currentDemo (runner p) of
        None \<Rightarrow> p
      | Some d \<Rightarrow>
          p\<lparr>released := released p @ [BaseDemo_destroy d],
            runner := (runner p)\<lparr>currentDemo := None\<rparr>\<rparr>)"

text \<open>
  \<open>load\<close> returns a boolean or is left by an exception; either way the page is as the
  statements executed so far have made it. An exception of \<open>new DemoClass(...)\<close> leaves
  \<open>load\<close> after \<open>this.stop()\<close> and the assignment to \<open>currentOptions\<close>.
\<close>

definition DemoRunner_load ::
    "string \<Rightarrow> demo_options \<Rightarrow> page \<Rightarrow> (js_error + bool) \<times> page" where
  "DemoRunner_load ident opts p =
     (case canvas (runner p) of
        None \<Rightarrow> (Inr False, p\<lparr>console := console p @ [''DemoRunner: No canvas set'']\<rparr>)
      | Some cv \<Rightarrow>
          (case registry (runner p) ident of
             None \<Rightarrow>
               (Inr False,
                p\<lparr>console := console p @
                   [''DemoRunner: Demo '' @ [CHR 0x22] @ ident @ [CHR 0x22] @ '' not found'']\<rparr>)
           | Some DemoClass \<Rightarrow>
               let p1 = DemoRunner_stop p;
                   p2 = p1\<lparr>runner := (runner p1)\<lparr>currentOptions := opts\<rparr>\<rparr>
               in case BaseDemo_constructor DemoClass cv opts of
                    Inl err \<Rightarrow> (Inl err, p2)
                  | Inr demo \<Rightarrow>
                      let p3 = p2\<lparr>runner := (runner p2)\<lparr>currentDemo := Some demo\<rparr>\<rparr>;
                          p4 = p3\<lparr>runner := (runner p3)
                                 \<lparr>currentDemo :=
                                    map_option BaseDemo_start (currentDemo (runner p3))\<rparr>\<rparr>
                      in (Inr True, p4)))"

text \<open>
  Two of the classes that \<open>gallery.js\<close> registers, and the gallery's page: a canvas
  bound, the two classes registered under their ids, and \<open>load('fireworks')\<close> done.
\<close>

definition FireworksDemo :: demo_class where
  "FireworksDemo =
     \<lparr> className = ''FireworksDemo'',
       getDefaultOptions =
         [''gravity'' \<mapsto> JNum 0.08, ''autoLaunchRate'' \<mapsto> JNum 2, ''rainbow'' \<mapsto> JBool False],
       onResizeReadsInitState = False \<rparr>"

definition SimpleParticlesDemo :: demo_class where
  "SimpleParticlesDemo =
     \<lparr> className = ''SimpleParticlesDemo'',
       getDefaultOptions =
         [''particleCount'' \<mapsto> JNum 150, ''speed'' \<mapsto> JNum 1, ''hue'' \<mapsto> JNum 220],
       onResizeReadsInitState = True \<rparr>"

definition demoCanvas_element :: canvas_element where
  "demoCanvas_element = \<lparr> canvasId = 1, context2d = True \<rparr>"

definition new_page :: page where
  "new_page = \<lparr> runner = DemoRunner_constructor, released = [], console = [] \<rparr>"

definition gallery_page :: page where
  "gallery_page =
     snd (DemoRunner_load ''fireworks'' Map.empty
            (DemoRunner_setCanvas (Some demoCanvas_element)
               (DemoRunner_register ''fireworks'' FireworksDemo
                  (DemoRunner_register ''simple-particles'' SimpleParticlesDemo new_page))))"

section \<open>What one call of \<open>update\<close> does\<close>

lemma foldl_add_sum_list: "foldl (\<lambda>a b. a + b) (z::real) xs = z + sum_list xs"
  by (induction xs arbitrary: z) simp_all

lemma foldl_sq_sum_list:
  "foldl (\<lambda>sq n. sq + (n - m) ^ 2) (z::real) xs = z + sum_list (map (\<lambda>n. (n - m) ^ 2) xs)"
  by (induction xs arbitrary: z) simp_all

lemma ute_fields [simp]:
  "sensitivity (updateTempoEstimate d) = sensitivity d"
  "decayRate (updateTempoEstimate d) = decayRate d"
  "cooldownMs (updateTempoEstimate d) = cooldownMs d"
  "historyLength (updateTempoEstimate d) = historyLength d"
  "energyHistory (updateTempoEstimate d) = energyHistory d"
  "lastBeatTime (updateTempoEstimate d) = lastBeatTime d"
  "beatIntensity (updateTempoEstimate d) = beatIntensity d"
  "p_isBeat (updateTempoEstimate d) = p_isBeat d"
  "beatCount (updateTempoEstimate d) = beatCount d"
  "beatTimes (updateTempoEstimate d) = beatTimes d"
  by (simp_all add: updateTempoEstimate_def Let_def)

lemma update_config [simp]:
  "sensitivity (update e t d) = sensitivity d"
  "decayRate (update e t d) = decayRate d"
  "cooldownMs (update e t d) = cooldownMs d"
  "historyLength (update e t d) = historyLength d"
  by (simp_all add: update_def Let_def)

lemma update_energyHistory [simp]: "energyHistory (update e t d) = window d e"
  by (simp add: update_def Let_def window_def)

lemmas update_unfold =
  update_def Let_def window_def fires_def mean_def deviation_def
  foldl_add_sum_list foldl_sq_sum_list

lemma update_p_isBeat: "p_isBeat (update e t d) = fires d e t"
  by (auto simp add: update_unfold)

lemma update_lastBeatTime:
  "lastBeatTime (update e t d) = (if fires d e t then t else lastBeatTime d)"
  by (auto simp add: update_unfold)

lemma update_beatIntensity:
  "beatIntensity (update e t d) =
     (if fires d e t
      then min 1 ((e - mean (window d e)) / (mean (window d e) + 0.01)) * decayRate d
      else if length (window d e) < 10 then beatIntensity d
      else beatIntensity d * decayRate d)"
  by (auto simp add: update_unfold)

lemma update_beatCount:
  "beatCount (update e t d) = (if fires d e t then beatCount d + 1 else beatCount d)"
  by (auto simp add: update_unfold)

lemma update_beatTimes:
  "beatTimes (update e t d) =
     (if fires d e t then push_bounded 16 t (beatTimes d) else beatTimes d)"
  by (auto simp add: update_unfold)

lemma update_estimatedBPM:
  "estimatedBPM (update e t d) =
     (if fires d e t
      then estimatedBPM
             (updateTempoEstimate (d\<lparr>beatTimes := push_bounded 16 t (beatTimes d)\<rparr>))
      else estimatedBPM d)"
  by (auto simp add: update_unfold updateTempoEstimate_def)

lemma length_window_le: "length (window d e) \<le> Suc (length (energyHistory d))"
  by (simp add: window_def push_bounded_def Let_def)

lemma set_window_subset: "set (window d e) \<subseteq> insert e (set (energyHistory d))"
proof -
  have "set (tl (energyHistory d @ [e])) \<subseteq> set (energyHistory d @ [e])"
    by (cases "energyHistory d @ [e]") auto
  then show ?thesis
    by (auto simp add: window_def push_bounded_def Let_def)
qed

lemma fires_needs_ten: "fires d e t \<Longrightarrow> 10 \<le> length (window d e)"
  by (simp add: fires_def)

lemma fires_needs_cooldown: "fires d e t \<Longrightarrow> cooldownMs d < t - lastBeatTime d"
  by (simp add: fires_def)

lemma length_states [simp]: "length (states d inputs) = length inputs"
  by (induction inputs arbitrary: d) auto

text \<open>Square roots met when a window of ten holds one or two samples of 1 among zeros.\<close>

lemma sqrt_9_100: "sqrt (9 / 100) = 3 / 10"
  by (rule real_sqrt_unique) (simp_all add: power2_eq_square)

lemma sqrt_4_25: "sqrt (4 / 25) = 2 / 5"
  by (rule real_sqrt_unique) (simp_all add: power2_eq_square)

lemmas concrete_run =
  constructor_def default_options_def or_default_def update_def push_bounded_def Let_def
  updateTempoEstimate_def power2_eq_square sqrt_9_100 sqrt_4_25


section \<open>Warm-up, cooldown and reset\<close>

lemma short_history_no_beat:
  "length (energyHistory d) + length inputs < 10 \<Longrightarrow>
     d' \<in> set (states d inputs) \<Longrightarrow> \<not> p_isBeat d'"
proof (induction inputs arbitrary: d)
  case Nil
  then show ?case by simp
next
  case (Cons x rest)
  obtain e t where x: "x = (e, t)" by (cases x)
  have len: "length (window d e) \<le> Suc (length (energyHistory d))"
    by (rule length_window_le)
  from Cons.prems x have "d' = update e t d \<or> d' \<in> set (states (update e t d) rest)"
    by simp
  then show ?case
  proof
    assume "d' = update e t d"
    moreover have "\<not> fires d e t"
      using fires_needs_ten [of d e t] len Cons.prems(1) by auto
    ultimately show ?thesis by (simp add: update_p_isBeat)
  next
    assume in_rest: "d' \<in> set (states (update e t d) rest)"
    have "length (energyHistory (update e t d)) + length rest < 10"
      using len Cons.prems(1) by simp
    from Cons.IH [OF this in_rest] show ?thesis .
  qed
qed

text \<open>
  Claim C3. On a freshly constructed or freshly reset detector, while fewer than 10
  samples have been pushed, \<open>isBeat()\<close> is false after every update, whatever the
  energies and timestamps are.
\<close>

theorem warm_up_never_beats:
  assumes "length inputs < 10"
  shows "list_all (\<lambda>d. \<not> isBeat d) (states (constructor opts) inputs) \<and>
         list_all (\<lambda>d. \<not> isBeat d) (states (reset d0) inputs)"
proof -
  have "length (energyHistory (constructor opts)) + length inputs < 10"
    using assms by (simp add: constructor_def)
  moreover have "length (energyHistory (reset d0)) + length inputs < 10"
    using assms by (simp add: reset_def)
  ultimately show ?thesis
    using short_history_no_beat by (auto simp add: list_all_iff isBeat_def)
qed

theorem warm_up_never_beats_witness:
  "length [(1::real, 0::real), (1, 500), (1, 1000)] < 10 \<and>
   list_all (\<lambda>d. \<not> isBeat d)
     (states (constructor default_options) [(1, 0), (1, 500), (1, 1000)]) \<and>
   list_all (\<lambda>d. \<not> isBeat d)
     (states (reset (constructor default_options)) [(1, 0), (1, 500), (1, 1000)])"
  using warm_up_never_beats
    [of "[(1, 0), (1, 500), (1, 1000)]" default_options "constructor default_options"]
  by simp

lemma early_no_beat:
  "0 \<le> lastBeatTime d \<Longrightarrow> list_all (\<lambda>x. 0 \<le> snd x) inputs \<Longrightarrow> i < length inputs \<Longrightarrow>
     snd (inputs ! i) \<le> cooldownMs d \<Longrightarrow> \<not> p_isBeat (states d inputs ! i)"
proof (induction inputs arbitrary: d i)
  case Nil
  then show ?case by simp
next
  case (Cons x rest)
  obtain e t where x: "x = (e, t)" by (cases x)
  show ?case
  proof (cases i)
    case 0
    with Cons.prems x have "t \<le> cooldownMs d" by simp
    with Cons.prems(1) have "\<not> fires d e t"
      using fires_needs_cooldown [of d e t] by auto
    with 0 x show ?thesis by (simp add: update_p_isBeat)
  next
    case (Suc k)
    have "0 \<le> t" using Cons.prems(2) x by simp
    then have lb: "0 \<le> lastBeatTime (update e t d)"
      using Cons.prems(1) by (simp add: update_lastBeatTime)
    have "\<not> p_isBeat (states (update e t d) rest ! k)"
      using Cons.IH [OF lb, of k] Cons.prems Suc by simp
    with Suc x show ?thesis by simp
  qed
qed

text \<open>
  Claim C10. On a freshly constructed or freshly reset detector fed non-negative
  timestamps, \<open>isBeat()\<close> is false after every update whose timestamp is at most
  \<open>cooldownMs\<close>: \<open>lastBeatTime\<close> starts at 0 and a beat needs
  \<open>currentTime - lastBeatTime > cooldownMs\<close>. (The timestamps need not be monotone for
  this.)
\<close>

theorem no_beat_before_cooldown:
  assumes "list_all (\<lambda>x. 0 \<le> snd x) inputs"
    and "d0 = constructor opts \<or> d0 = reset d"
    and "i < length inputs"
    and "snd (inputs ! i) \<le> cooldownMs d0"
  shows "\<not> isBeat (states d0 inputs ! i)"
proof -
  have "lastBeatTime d0 = 0"
    using assms(2) by (auto simp add: constructor_def reset_def)
  then have "0 \<le> lastBeatTime d0" by simp
  from early_no_beat [OF this assms(1) assms(3) assms(4)] show ?thesis
    by (simp add: isBeat_def)
qed

text \<open>
  Ten samples with a spike of 1 at the tenth, on a window of ten: statistically a beat
  (mean 0.1, deviation 0.3, threshold 0.52), but its timestamp 150 is not past the
  cooldown of 180, so it is not reported.
\<close>

theorem no_beat_before_cooldown_witness:
  "list_all (\<lambda>x. 0 \<le> snd x)
     [(0::real, 0::real), (0, 16), (0, 32), (0, 48), (0, 64), (0, 80), (0, 96), (0, 112),
      (0, 128), (1, 150)] \<and>
   (150::real) \<le> cooldownMs (constructor (default_options\<lparr>opt_historyLength := Some 10\<rparr>)) \<and>
   \<not> isBeat
       (states (constructor (default_options\<lparr>opt_historyLength := Some 10\<rparr>))
          [(0, 0), (0, 16), (0, 32), (0, 48), (0, 64), (0, 80), (0, 96), (0, 112),
           (0, 128), (1, 150)] ! 9)"
  using no_beat_before_cooldown
    [of "[(0, 0), (0, 16), (0, 32), (0, 48), (0, 64), (0, 80), (0, 96), (0, 112),
          (0, 128), (1, 150)]"
        "constructor (default_options\<lparr>opt_historyLength := Some 10\<rparr>)"
        "default_options\<lparr>opt_historyLength := Some 10\<rparr>" "constructor default_options" 9]
  by (simp add: constructor_def default_options_def or_default_def)

lemma beat_after_mark:
  "a \<le> lastBeatTime d \<Longrightarrow> list_all (\<lambda>x. a \<le> snd x) inputs \<Longrightarrow> j < length inputs \<Longrightarrow>
     p_isBeat (states d inputs ! j) \<Longrightarrow> cooldownMs d < snd (inputs ! j) - a"
proof (induction inputs arbitrary: d j)
  case Nil
  then show ?case by simp
next
  case (Cons x rest)
  obtain e t where x: "x = (e, t)" by (cases x)
  show ?case
  proof (cases j)
    case 0
    with Cons.prems x have "fires d e t" by (simp add: update_p_isBeat)
    then have "cooldownMs d < t - lastBeatTime d" by (rule fires_needs_cooldown)
    with Cons.prems(1) 0 x show ?thesis by simp
  next
    case (Suc k)
    have "a \<le> t" using Cons.prems(2) x by simp
    then have lb: "a \<le> lastBeatTime (update e t d)"
      using Cons.prems(1) by (simp add: update_lastBeatTime)
    have "cooldownMs (update e t d) < snd (rest ! k) - a"
      using Cons.IH [OF lb, of k] Cons.prems Suc x by simp
    with Suc show ?thesis by simp
  qed
qed

text \<open>
  Claim C2. With monotonically non-decreasing timestamps, any two distinct updates
  after which \<open>isBeat()\<close> is true have timestamps that differ by strictly more than
  \<open>cooldownMs\<close>. The detector \<open>d\<close> the calls start from is arbitrary.
\<close>

theorem beats_spaced_by_cooldown:
  assumes "sorted (map snd inputs)"
    and "i < j" and "j < length inputs"
    and "isBeat (states d inputs ! i)" and "isBeat (states d inputs ! j)"
  shows "cooldownMs d < snd (inputs ! j) - snd (inputs ! i)"
  using assms
proof (induction inputs arbitrary: d i j)
  case Nil
  then show ?case by simp
next
  case (Cons x rest)
  obtain e t where x: "x = (e, t)" by (cases x)
  from Cons.prems(2) obtain k where j: "j = Suc k" by (cases j) auto
  have sorted_rest: "sorted (map snd rest)" and later: "list_all (\<lambda>y. t \<le> snd y) rest"
    using Cons.prems(1) x by (auto simp add: list_all_iff)
  show ?case
  proof (cases i)
    case 0
    with Cons.prems(4) x have "fires d e t" by (simp add: update_p_isBeat isBeat_def)
    then have lb: "t \<le> lastBeatTime (update e t d)" by (simp add: update_lastBeatTime)
    have "p_isBeat (states (update e t d) rest ! k)"
      using Cons.prems(5) j x by (simp add: isBeat_def)
    from beat_after_mark [OF lb later _ this] Cons.prems(3) j
    have "cooldownMs (update e t d) < snd (rest ! k) - t" by simp
    with 0 j x show ?thesis by simp
  next
    case (Suc i')
    have "cooldownMs (update e t d) < snd (rest ! k) - snd (rest ! i')"
      using Cons.IH [OF sorted_rest, of i' k "update e t d"] Cons.prems Suc j x by simp
    with Suc j show ?thesis by simp
  qed
qed

text \<open>
  A window of ten: nine zeros, a spike at 1000 (a beat) and a second sample of 1 at 1200
  (mean 0.2, deviation 0.4, threshold 0.76: a beat again, 200 ms after the first).
\<close>

theorem beats_spaced_by_cooldown_witness:
  "sorted (map snd
     [(0::real, 0::real), (0, 0), (0, 0), (0, 0), (0, 0), (0, 0), (0, 0), (0, 0), (0, 0),
      (1, 1000), (1, 1200)]) \<and>
   isBeat (states (constructor (default_options\<lparr>opt_historyLength := Some 10\<rparr>))
     [(0, 0), (0, 0), (0, 0), (0, 0), (0, 0), (0, 0), (0, 0), (0, 0), (0, 0),
      (1, 1000), (1, 1200)] ! 9) \<and>
   isBeat (states (constructor (default_options\<lparr>opt_historyLength := Some 10\<rparr>))
     [(0, 0), (0, 0), (0, 0), (0, 0), (0, 0), (0, 0), (0, 0), (0, 0), (0, 0),
      (1, 1000), (1, 1200)] ! 10) \<and>
   cooldownMs (constructor (default_options\<lparr>opt_historyLength := Some 10\<rparr>))
     < (1200::real) - 1000"
proof -
  let ?d = "constructor (default_options\<lparr>opt_historyLength := Some 10\<rparr>)"
  let ?inputs = "[(0::real, 0::real), (0, 0), (0, 0), (0, 0), (0, 0), (0, 0), (0, 0), (0, 0),
      (0, 0), (1, 1000), (1, 1200)]"
  have s: "sorted (map snd ?inputs)" by simp
  have b9: "isBeat (states ?d ?inputs ! 9)"
    by (simp add: isBeat_def concrete_run)
  have b10: "isBeat (states ?d ?inputs ! 10)"
    by (simp add: isBeat_def concrete_run)
  have "cooldownMs ?d < snd (?inputs ! 10) - snd (?inputs ! 9)"
    by (rule beats_spaced_by_cooldown [OF s _ _ b9 b10]) simp_all
  with s b9 b10 show ?thesis by simp
qed

lemma reset_config [simp]:
  "sensitivity (reset d) = sensitivity d"
  "decayRate (reset d) = decayRate d"
  "cooldownMs (reset d) = cooldownMs d"
  "historyLength (reset d) = historyLength d"
  by (simp_all add: reset_def)

lemma run_calls_config:
  "sensitivity (run_calls d cs) = sensitivity d \<and>
   decayRate (run_calls d cs) = decayRate d \<and>
   cooldownMs (run_calls d cs) = cooldownMs d \<and>
   historyLength (run_calls d cs) = historyLength d"
  unfolding run_calls_def
proof (induction cs arbitrary: d)
  case Nil
  then show ?case by simp
next
  case (Cons c cs)
  show ?case by (cases c) (simp_all add: Cons.IH)
qed

lemma reset_reachable: "reset (run_calls (constructor opts) cs) = constructor opts"
proof -
  let ?d = "run_calls (constructor opts) cs"
  have "sensitivity ?d = sensitivity (constructor opts)"
    "decayRate ?d = decayRate (constructor opts)"
    "cooldownMs ?d = cooldownMs (constructor opts)"
    "historyLength ?d = historyLength (constructor opts)"
    using run_calls_config [of "constructor opts" cs] by simp_all
  then show ?thesis
    by (simp add: reset_def constructor_def)
qed

text \<open>
  Claim C6. For every state reachable from \<open>new BeatDetector(opts)\<close> by calls of
  \<open>update\<close> and \<open>reset\<close>, and every following input sequence, \<open>reset()\<close> and then the
  sequence gives the same observable outputs (\<open>isBeat\<close>, \<open>getBeatIntensity\<close>,
  \<open>getBPM\<close>, \<open>getBeatCount\<close>) after every update as the sequence on a fresh
  \<open>new BeatDetector(opts)\<close>; indeed the reset detector is the fresh one.
\<close>

theorem reset_like_fresh:
  "map observe (states (reset (run_calls (constructor opts) cs)) inputs) =
     map observe (states (constructor opts) inputs) \<and>
   reset (run_calls (constructor opts) cs) = constructor opts"
  by (simp add: reset_reachable)

text \<open>
  Claim C9. A configuration field given as 0 (falsy) is replaced by its default, 1.4,
  0.93, 180 and 30 for \<open>sensitivity\<close>, \<open>decayRate\<close>, \<open>cooldownMs\<close> and
  \<open>historyLength\<close>, as an absent field is; a detector constructed with
  \<open>cooldownMs: 0\<close> is the detector constructed with \<open>cooldownMs: 180\<close>, and gives the
  same outputs on every input sequence.
\<close>

theorem falsy_option_gives_default:
  "sensitivity (constructor (opts\<lparr>opt_sensitivity := Some 0\<rparr>)) = 1.4 \<and>
   decayRate (constructor (opts\<lparr>opt_decayRate := Some 0\<rparr>)) = 0.93 \<and>
   cooldownMs (constructor (opts\<lparr>opt_cooldownMs := Some 0\<rparr>)) = 180 \<and>
   historyLength (constructor (opts\<lparr>opt_historyLength := Some 0\<rparr>)) = 30 \<and>
   constructor (opts\<lparr>opt_cooldownMs := Some 0\<rparr>) =
     constructor (opts\<lparr>opt_cooldownMs := Some 180\<rparr>) \<and>
   map observe (states (constructor (opts\<lparr>opt_cooldownMs := Some 0\<rparr>)) inputs) =
     map observe (states (constructor (opts\<lparr>opt_cooldownMs := Some 180\<rparr>)) inputs)"
  by (simp add: constructor_def or_default_def)


section \<open>Statistics of the window\<close>

lemma sum_list_const: "list_all (\<lambda>x. x = c) h \<Longrightarrow> sum_list h = c * real (length h)"
  by (induction h) (simp_all add: algebra_simps)

lemma mean_const: "list_all (\<lambda>x. x = c) h \<Longrightarrow> h \<noteq> [] \<Longrightarrow> mean h = c"
  by (simp add: mean_def sum_list_const)

lemma deviation_const: "list_all (\<lambda>x. x = c) h \<Longrightarrow> h \<noteq> [] \<Longrightarrow> deviation h = 0"
proof -
  assume all: "list_all (\<lambda>x. x = c) h" and ne: "h \<noteq> []"
  have m: "mean h = c" using all ne by (rule mean_const)
  have "sum_list (map (\<lambda>n. (n - mean h) ^ 2) h) = sum_list (map (\<lambda>n. 0) h)"
  proof (rule arg_cong [where f = sum_list], rule map_cong)
    fix x assume "x \<in> set h"
    then show "(x - mean h) ^ 2 = 0" using all m by (simp add: list_all_iff)
  qed simp
  then show ?thesis by (simp add: deviation_def)
qed

lemma mean_nonneg: "list_all (\<lambda>x. 0 \<le> x) h \<Longrightarrow> 0 \<le> mean h"
  by (simp add: mean_def list_all_iff sum_list_nonneg)

lemma deviation_nonneg: "0 \<le> deviation h"
proof -
  have "0 \<le> sum_list (map (\<lambda>n. (n - mean h) ^ 2) h)"
    by (rule sum_list_nonneg) auto
  then show ?thesis by (simp add: deviation_def)
qed

lemma window_all:
  "list_all P (energyHistory d) \<Longrightarrow> P e \<Longrightarrow> list_all P (window d e)"
  using set_window_subset [of d e] by (auto simp add: list_all_iff)

lemma fires_above_mean:
  assumes "fires d e t" and "0 \<le> sensitivity d"
  shows "mean (window d e) < e"
proof -
  have "0 \<le> sensitivity d * deviation (window d e)"
    using assms(2) deviation_nonneg by simp
  moreover have "mean (window d e) + sensitivity d * deviation (window d e) < e"
    using assms(1) by (simp add: fires_def)
  ultimately show ?thesis by linarith
qed

section \<open>Constant energy\<close>

lemma constant_no_fire:
  assumes "list_all (\<lambda>x. x = c) (energyHistory d)"
  shows "\<not> fires d c t"
proof
  assume f: "fires d c t"
  have all: "list_all (\<lambda>x. x = c) (window d c)"
    using assms by (rule window_all) simp
  have ne: "window d c \<noteq> []"
    using fires_needs_ten [OF f] by auto
  have "c > mean (window d c) + sensitivity d * deviation (window d c)"
    using f by (simp add: fires_def)
  then show False
    by (simp add: mean_const [OF all ne] deviation_const [OF all ne])
qed

lemma constant_run_no_beat:
  "list_all (\<lambda>x. x = c) (energyHistory d) \<Longrightarrow>
     list_all (\<lambda>d'. \<not> p_isBeat d') (states d (map (\<lambda>t. (c, t)) ts))"
proof (induction ts arbitrary: d)
  case Nil
  then show ?case by simp
next
  case (Cons t ts)
  have "list_all (\<lambda>x. x = c) (energyHistory (update c t d))"
    using Cons.prems by (simp add: window_all)
  from Cons.IH [OF this] constant_no_fire [OF Cons.prems, of t]
  show ?case by (simp add: update_p_isBeat)
qed

text \<open>
  In exact arithmetic, feeding the same energy \<open>c\<close> again and again never makes
  \<open>isBeat()\<close> true once the window holds only \<open>c\<close>: from a freshly constructed
  detector (whose window is empty), and from any detector whose window already holds
  only \<open>c\<close>. The mean is then \<open>c\<close>, the deviation 0, the threshold \<open>c\<close>, and
  \<open>c > c\<close> fails. This is the reasoning of the specification; it does not carry over
  to the rounded arithmetic of the code, see the last section.
\<close>

lemma constant_energy_never_beats_exact:
  assumes "d = constructor opts \<or> list_all (\<lambda>x. x = c) (energyHistory d)"
  shows "list_all (\<lambda>d'. \<not> isBeat d') (states d (map (\<lambda>t. (c, t)) ts))"
proof -
  have "list_all (\<lambda>x. x = c) (energyHistory d)"
    using assms by (auto simp add: constructor_def)
  from constant_run_no_beat [OF this] show ?thesis
    by (simp add: isBeat_def [abs_def])
qed

section \<open>Range of the beat intensity\<close>

lemma update_intensity_range:
  assumes s: "0 \<le> sensitivity d" and r: "0 \<le> decayRate d" "decayRate d \<le> 1"
    and h: "list_all (\<lambda>x. 0 \<le> x) (energyHistory d)" and e: "0 \<le> e"
    and i: "0 \<le> beatIntensity d" "beatIntensity d \<le> 1"
  shows "0 \<le> beatIntensity (update e t d) \<and> beatIntensity (update e t d) \<le> 1"
proof (cases "fires d e t")
  case True
  let ?m = "mean (window d e)"
  let ?q = "min 1 ((e - ?m) / (?m + 0.01))"
  have m0: "0 \<le> ?m" using h e by (intro mean_nonneg window_all)
  have "?m < e" using True s by (rule fires_above_mean)
  with m0 have "0 \<le> (e - ?m) / (?m + 0.01)" by simp
  then have q: "0 \<le> ?q" "?q \<le> 1" by simp_all
  have "0 \<le> ?q * decayRate d" using q(1) r(1) by simp
  moreover have "?q * decayRate d \<le> 1" using q r by (simp add: mult_le_one)
  ultimately show ?thesis using True by (simp add: update_beatIntensity)
next
  case False
  have "0 \<le> beatIntensity d * decayRate d" using i(1) r(1) by simp
  moreover have "beatIntensity d * decayRate d \<le> 1" using i r by (simp add: mult_le_one)
  ultimately show ?thesis using False i by (simp add: update_beatIntensity)
qed

lemma run_intensity_range:
  "0 \<le> sensitivity d \<Longrightarrow> 0 \<le> decayRate d \<Longrightarrow> decayRate d \<le> 1 \<Longrightarrow>
   list_all (\<lambda>x. 0 \<le> x) (energyHistory d) \<Longrightarrow>
   0 \<le> beatIntensity d \<Longrightarrow> beatIntensity d \<le> 1 \<Longrightarrow>
   list_all (\<lambda>x. 0 \<le> fst x) inputs \<Longrightarrow>
   list_all (\<lambda>d'. 0 \<le> beatIntensity d' \<and> beatIntensity d' \<le> 1) (states d inputs)"
proof (induction inputs arbitrary: d)
  case Nil
  then show ?case by simp
next
  case (Cons x rest)
  obtain e t where x: "x = (e, t)" by (cases x)
  have e: "0 \<le> e" and rest: "list_all (\<lambda>x. 0 \<le> fst x) rest"
    using Cons.prems(7) x by simp_all
  have step: "0 \<le> beatIntensity (update e t d) \<and> beatIntensity (update e t d) \<le> 1"
    using Cons.prems(1-6) e by (intro update_intensity_range)
  have hist: "list_all (\<lambda>x. 0 \<le> x) (energyHistory (update e t d))"
    using Cons.prems(4) e by (simp add: window_all)
  have "list_all (\<lambda>d'. 0 \<le> beatIntensity d' \<and> beatIntensity d' \<le> 1)
          (states (update e t d) rest)"
    using Cons.prems(1-3) hist step rest by (intro Cons.IH) simp_all
  with step x show ?case by simp
qed

text \<open>
  Where the intensity does stay in range: for a detector constructed with a
  non-negative \<open>sensitivity\<close> and a \<open>decayRate\<close> in \<open>[0,1]\<close> (the defaults 1.4 and
  0.93 are), and every sequence of updates whose energies are non-negative,
  \<open>getBeatIntensity()\<close> lies in \<open>[0,1]\<close> after every update. A non-negative
  \<open>sensitivity\<close> keeps the energy of a beat above the mean, so that the quotient
  assigned in the beat frame is positive, and a \<open>decayRate\<close> in \<open>[0,1]\<close> keeps the
  product in range.
\<close>

lemma beat_intensity_in_range:
  assumes "0 \<le> sensitivity (constructor opts)"
    and "0 \<le> decayRate (constructor opts)" and "decayRate (constructor opts) \<le> 1"
    and "list_all (\<lambda>x. 0 \<le> fst x \<and> fst x \<le> 1) inputs"
  shows "list_all (\<lambda>d. 0 \<le> getBeatIntensity d \<and> getBeatIntensity d \<le> 1)
           (states (constructor opts) inputs)"
proof -
  have "list_all (\<lambda>x. 0 \<le> fst x) inputs"
    using assms(4) by (simp add: list_all_iff)
  moreover have "energyHistory (constructor opts) = []" "beatIntensity (constructor opts) = 0"
    by (simp_all add: constructor_def)
  ultimately have "list_all (\<lambda>d'. 0 \<le> beatIntensity d' \<and> beatIntensity d' \<le> 1)
      (states (constructor opts) inputs)"
    using assms(1-3) by (intro run_intensity_range) simp_all
  then show ?thesis by (simp add: getBeatIntensity_def [abs_def])
qed

lemma sqrt_16_289: "sqrt (16 / 289) = 4 / 17"
  by (rule real_sqrt_unique) (simp_all add: power2_eq_square)

text \<open>
  Claim C1 fails on the code. The energies below lie in \<open>[0,1]\<close> and the timestamps
  increase, yet \<open>getBeatIntensity()\<close>, documented as "decaying beat intensity
  (0-1)", leaves the range. With \<open>sensitivity: -10\<close>, sixteen ones and a sample of 0
  make a beat below the mean: the beat frame assigns
  \<open>Math.min(1, (energy - mean) / (mean + 0.01))\<close>, which has no lower bound, and the
  intensity is negative. With \<open>decayRate: 2\<close>, sixteen zeros and a spike of 1 leave
  the intensity at 2.
\<close>

theorem beat_intensity_out_of_range:
  "getBeatIntensity
     (run (constructor (default_options\<lparr>opt_decayRate := Some 2\<rparr>))
        [(0, 0), (0, 16), (0, 32), (0, 48), (0, 64), (0, 80), (0, 96), (0, 112),
         (0, 128), (0, 144), (0, 160), (0, 176), (0, 192), (0, 208), (0, 224), (0, 240),
         (1, 256)]) = 2 \<and>
   getBeatIntensity
     (run (constructor (default_options\<lparr>opt_sensitivity := Some (- 10)\<rparr>))
        [(1, 0), (1, 16), (1, 32), (1, 48), (1, 64), (1, 80), (1, 96), (1, 112),
         (1, 128), (1, 144), (1, 160), (1, 176), (1, 192), (1, 208), (1, 224), (1, 240),
         (0, 256)]) < 0"
  by (simp add: getBeatIntensity_def concrete_run sqrt_16_289)

section \<open>Runs of silent samples and the spike scenario\<close>

lemma run_config [simp]:
  "sensitivity (run d inputs) = sensitivity d"
  "decayRate (run d inputs) = decayRate d"
  "cooldownMs (run d inputs) = cooldownMs d"
  "historyLength (run d inputs) = historyLength d"
  by (induction d inputs rule: run.induct) simp_all

lemma states_append: "states d (xs @ ys) = states d xs @ states (run d xs) ys"
  by (induction d xs rule: states.induct) simp_all

lemma run_append: "run d (xs @ ys) = run (run d xs) ys"
  by (induction d xs rule: run.induct) simp_all

lemma length_window_ge: "length (energyHistory d) \<le> length (window d e)"
  by (simp add: window_def push_bounded_def Let_def)

lemma window_grow:
  "real (Suc (length (energyHistory d))) \<le> historyLength d \<Longrightarrow>
     window d e = energyHistory d @ [e]"
  by (simp add: window_def push_bounded_def Let_def)

lemma zero_no_fire:
  assumes "0 \<le> sensitivity d" and "list_all (\<lambda>x. 0 \<le> x) (energyHistory d)"
  shows "\<not> fires d 0 t"
proof
  assume "fires d 0 t"
  then have "mean (window d 0) < 0" using assms(1) by (rule fires_above_mean)
  moreover have "0 \<le> mean (window d 0)"
    using assms(2) by (intro mean_nonneg window_all) simp_all
  ultimately show False by simp
qed

lemma quiet_states:
  "0 \<le> sensitivity d \<Longrightarrow> list_all (\<lambda>x. 0 \<le> x) (energyHistory d) \<Longrightarrow>
   list_all (\<lambda>x. fst x = 0) zs \<Longrightarrow> list_all (\<lambda>d'. \<not> p_isBeat d') (states d zs)"
proof (induction zs arbitrary: d)
  case Nil
  then show ?case by simp
next
  case (Cons z zs)
  obtain t where z: "z = (0, t)" using Cons.prems(3) by (cases z) simp
  have nf: "\<not> fires d 0 t" using Cons.prems(1,2) by (rule zero_no_fire)
  have "list_all (\<lambda>x. 0 \<le> x) (energyHistory (update 0 t d))"
    using Cons.prems(2) by (simp add: window_all)
  then have "list_all (\<lambda>d'. \<not> p_isBeat d') (states (update 0 t d) zs)"
    using Cons.prems by (intro Cons.IH) simp_all
  with nf z show ?case by (simp add: update_p_isBeat)
qed

lemma quiet_lastBeatTime:
  "0 \<le> sensitivity d \<Longrightarrow> list_all (\<lambda>x. 0 \<le> x) (energyHistory d) \<Longrightarrow>
   list_all (\<lambda>x. fst x = 0) zs \<Longrightarrow> lastBeatTime (run d zs) = lastBeatTime d"
proof (induction zs arbitrary: d)
  case Nil
  then show ?case by simp
next
  case (Cons z zs)
  obtain t where z: "z = (0, t)" using Cons.prems(3) by (cases z) simp
  have nf: "\<not> fires d 0 t" using Cons.prems(1,2) by (rule zero_no_fire)
  have "list_all (\<lambda>x. 0 \<le> x) (energyHistory (update 0 t d))"
    using Cons.prems(2) by (simp add: window_all)
  then have "lastBeatTime (run (update 0 t d) zs) = lastBeatTime (update 0 t d)"
    using Cons.prems by (intro Cons.IH) simp_all
  with nf z show ?case by (simp add: update_lastBeatTime)
qed

lemma quiet_intensity_zero:
  "0 \<le> sensitivity d \<Longrightarrow> list_all (\<lambda>x. 0 \<le> x) (energyHistory d) \<Longrightarrow>
   list_all (\<lambda>x. fst x = 0) zs \<Longrightarrow> beatIntensity d = 0 \<Longrightarrow> beatIntensity (run d zs) = 0"
proof (induction zs arbitrary: d)
  case Nil
  then show ?case by simp
next
  case (Cons z zs)
  obtain t where z: "z = (0, t)" using Cons.prems(3) by (cases z) simp
  have nf: "\<not> fires d 0 t" using Cons.prems(1,2) by (rule zero_no_fire)
  have "list_all (\<lambda>x. 0 \<le> x) (energyHistory (update 0 t d))"
    using Cons.prems(2) by (simp add: window_all)
  moreover have "beatIntensity (update 0 t d) = 0"
    using nf Cons.prems(4) by (simp add: update_beatIntensity)
  ultimately have "beatIntensity (run (update 0 t d) zs) = 0"
    using Cons.prems by (intro Cons.IH) simp_all
  with z show ?case by simp
qed

lemma quiet_history_grow:
  "real (length (energyHistory d) + length zs) \<le> historyLength d \<Longrightarrow>
   list_all (\<lambda>x. fst x = 0) zs \<Longrightarrow>
   energyHistory (run d zs) = energyHistory d @ replicate (length zs) 0"
proof (induction zs arbitrary: d)
  case Nil
  then show ?case by simp
next
  case (Cons z zs)
  obtain t where z: "z = (0, t)" using Cons.prems(2) by (cases z) simp
  have w: "window d 0 = energyHistory d @ [0]"
    using Cons.prems(1) by (intro window_grow) simp
  have "energyHistory (run (update 0 t d) zs) =
          energyHistory (update 0 t d) @ replicate (length zs) 0"
    using Cons.prems w by (intro Cons.IH) simp_all
  with w z show ?case by (simp add: replicate_app_Cons_same)
qed

lemma quiet_decay:
  "0 \<le> sensitivity d \<Longrightarrow> list_all (\<lambda>x. 0 \<le> x) (energyHistory d) \<Longrightarrow>
   10 \<le> length (energyHistory d) \<Longrightarrow> list_all (\<lambda>x. fst x = 0) zs \<Longrightarrow> k < length zs \<Longrightarrow>
   beatIntensity (states d zs ! k) = beatIntensity ((d # states d zs) ! k) * decayRate d"
proof (induction zs arbitrary: d k)
  case Nil
  then show ?case by simp
next
  case (Cons z zs)
  obtain t where z: "z = (0, t)" using Cons.prems(4) by (cases z) simp
  have nf: "\<not> fires d 0 t" using Cons.prems(1,2) by (rule zero_no_fire)
  have len: "10 \<le> length (window d 0)"
    using Cons.prems(3) length_window_ge [of d 0] by linarith
  show ?case
  proof (cases k)
    case 0
    with nf len z show ?thesis by (simp add: update_beatIntensity)
  next
    case (Suc k')
    have "list_all (\<lambda>x. 0 \<le> x) (energyHistory (update 0 t d))"
      using Cons.prems(2) by (simp add: window_all)
    then have "beatIntensity (states (update 0 t d) zs ! k') =
        beatIntensity ((update 0 t d # states (update 0 t d) zs) ! k') *
        decayRate (update 0 t d)"
      using Cons.prems Suc len by (intro Cons.IH) simp_all
    with Suc z show ?thesis by simp
  qed
qed

lemma all_false_replicate:
  "list_all (\<lambda>d. \<not> p_isBeat d) ds \<Longrightarrow> map isBeat ds = replicate (length ds) False"
  by (induction ds) (simp_all add: isBeat_def)

lemma spike_inputs_split:
  "spike_inputs t0 n =
     map (\<lambda>i. (0, t0 + 16 * real i)) [0 ..< 10] @ [(1, t0 + 160)] @
     map (\<lambda>i. (0, t0 + 16 * real i)) [11 ..< 11 + n]"
proof -
  have "[0 ..< 11 + n] = [0 ..< 10] @ [10] @ [11 ..< 11 + n]"
    by (simp add: upt_conv_Cons [of 10] upt_add_eq_append [of 0 10 "1 + n", simplified])
  then show ?thesis by (simp add: spike_inputs_def)
qed

lemma sqrt_10_121_bound: "sqrt (10 / 121) < 10 / 33"
  by (rule real_less_lsqrt) (simp_all add: power2_eq_square)

lemma spike_fires:
  assumes hist: "energyHistory d = replicate 10 0" and cap: "11 \<le> historyLength d"
    and s: "0 \<le> sensitivity d" "sensitivity d \<le> 3"
    and cd: "cooldownMs d < t - lastBeatTime d"
  shows "fires d 1 t"
    and "mean (window d 1) = 1 / 11"
proof -
  have w: "window d 1 = [0, 0, 0, 0, 0, 0, 0, 0, 0, 0, 1]"
    using cap by (simp add: window_def push_bounded_def Let_def hist eval_nat_numeral)
  show m: "mean (window d 1) = 1 / 11" by (simp add: w mean_def)
  have dev: "deviation (window d 1) = sqrt (10 / 121)"
    unfolding deviation_def m by (simp add: w power2_eq_square)
  have "sensitivity d * deviation (window d 1) \<le> 3 * deviation (window d 1)"
    using s(2) deviation_nonneg by (rule mult_right_mono)
  also have "\<dots> < 10 / 11" using sqrt_10_121_bound by (simp add: dev)
  finally have "mean (window d 1) + sensitivity d * deviation (window d 1) < 1"
    by (simp add: m)
  moreover have "mean (window d 1) * sensitivity d < 1" using s by (simp add: m)
  moreover have "10 \<le> length (window d 1)" by (simp add: w)
  ultimately show "fires d 1 t" using cd by (simp add: fires_def)
qed


text \<open>
  Claim C7, as amended. A detector freshly constructed with \<open>0 \<le> sensitivity \<le> 3\<close>
  and \<open>historyLength \<ge> 11\<close> (the defaults 1.4 and 30 are) is fed ten zeros, a spike of
  1 and then \<open>n\<close> zeros, 16 ms apart, the cooldown being satisfied at the spike
  (\<open>lastBeatTime\<close> is still 0 there, so this is \<open>t0 + 160 > cooldownMs\<close>). Then
  \<open>isBeat()\<close> is true after the eleventh update and after no other, the intensity
  after the spike is \<open>decayRate\<close>, and after every following zero sample
  \<open>getBeatIntensity()\<close> is its previous value times \<open>decayRate\<close>.
\<close>

theorem spike_scenario:
  assumes fresh: "d0 = constructor opts"
    and s: "0 \<le> sensitivity d0" "sensitivity d0 \<le> 3"
    and cap: "11 \<le> historyLength d0"
    and cd: "cooldownMs d0 < t0 + 160"
  shows "map isBeat (states d0 (spike_inputs t0 n)) =
           replicate 10 False @ [True] @ replicate n False \<and>
         getBeatIntensity (states d0 (spike_inputs t0 n) ! 10) = decayRate d0 \<and>
         (\<forall>k<n. getBeatIntensity (states d0 (spike_inputs t0 n) ! (11 + k)) =
                 getBeatIntensity (states d0 (spike_inputs t0 n) ! (10 + k)) * decayRate d0)"
proof -
  let ?A = "map (\<lambda>i. (0::real, t0 + 16 * real i)) [0 ..< 10]"
  let ?Z = "map (\<lambda>i. (0::real, t0 + 16 * real i)) [11 ..< 11 + n]"
  let ?d10 = "run d0 ?A"
  let ?dsp = "update 1 (t0 + 160) ?d10"
  have init: "energyHistory d0 = []" "lastBeatTime d0 = 0" "beatIntensity d0 = 0"
    using fresh by (simp_all add: constructor_def)
  have zA: "list_all (\<lambda>x. fst x = 0) ?A" and zZ: "list_all (\<lambda>x. fst x = 0) ?Z"
    by (simp_all add: list_all_iff)
  have nn0: "list_all (\<lambda>x. 0 \<le> x) (energyHistory d0)" by (simp add: init)
  have quietA: "list_all (\<lambda>d'. \<not> p_isBeat d') (states d0 ?A)"
    using s(1) nn0 zA by (rule quiet_states)
  have h10: "energyHistory ?d10 = replicate 10 0"
    using quiet_history_grow [of d0 ?A] cap zA by (simp add: init)
  have l10: "lastBeatTime ?d10 = 0"
    using quiet_lastBeatTime [OF s(1) nn0 zA] by (simp add: init)
  have spike: "fires ?d10 1 (t0 + 160)" and m: "mean (window ?d10 1) = 1 / 11"
    using h10 cap s cd by (simp_all add: spike_fires l10)
  have bsp: "p_isBeat ?dsp" using spike by (simp add: update_p_isBeat)
  have isp: "beatIntensity ?dsp = decayRate d0"
    using spike by (simp add: update_beatIntensity m)
  have "list_all (\<lambda>x. 0 \<le> x) (window ?d10 1)"
    by (rule window_all) (simp_all add: h10 list_all_iff)
  then have nnsp: "list_all (\<lambda>x. 0 \<le> x) (energyHistory ?dsp)" by simp
  have lensp: "10 \<le> length (energyHistory ?dsp)"
    using length_window_ge [of ?d10 1] by (simp add: h10)
  have quietZ: "list_all (\<lambda>d'. \<not> p_isBeat d') (states ?dsp ?Z)"
    using zZ nnsp s(1) by (intro quiet_states) simp_all
  have split: "states d0 (spike_inputs t0 n) = states d0 ?A @ ?dsp # states ?dsp ?Z"
    by (simp add: spike_inputs_split states_append)
  have lenA: "length (states d0 ?A) = 10" by simp
  have decay: "getBeatIntensity (states d0 (spike_inputs t0 n) ! (11 + k)) =
      getBeatIntensity (states d0 (spike_inputs t0 n) ! (10 + k)) * decayRate d0"
    if "k < n" for k
  proof -
    have "beatIntensity (states ?dsp ?Z ! k) =
        beatIntensity ((?dsp # states ?dsp ?Z) ! k) * decayRate ?dsp"
      using nnsp lensp zZ that s(1) by (intro quiet_decay) simp_all
    moreover have "states d0 (spike_inputs t0 n) ! (11 + k) = states ?dsp ?Z ! k"
      unfolding split using lenA by (simp add: nth_append)
    moreover have "states d0 (spike_inputs t0 n) ! (10 + k) = (?dsp # states ?dsp ?Z) ! k"
      unfolding split using lenA by (simp add: nth_append)
    ultimately show ?thesis by (simp add: getBeatIntensity_def)
  qed
  have "map isBeat (states d0 (spike_inputs t0 n)) =
      replicate 10 False @ [True] @ replicate n False"
    unfolding split
    using all_false_replicate [OF quietA] all_false_replicate [OF quietZ] bsp
    by (simp add: isBeat_def)
  moreover have "getBeatIntensity (states d0 (spike_inputs t0 n) ! 10) = decayRate d0"
    unfolding split using lenA isp by (simp add: nth_append getBeatIntensity_def)
  ultimately show ?thesis using decay by blast
qed

text \<open>
  \<open>new BeatDetector()\<close> with the first sample at 1000 ms and three zeros after the
  spike: one beat, at the eleventh sample, and the intensity 0.93 after it, multiplied by 0.93 at each further sample.
\<close>

theorem spike_scenario_witness:
  "0 \<le> sensitivity (constructor default_options) \<and>
   sensitivity (constructor default_options) \<le> 3 \<and>
   11 \<le> historyLength (constructor default_options) \<and>
   cooldownMs (constructor default_options) < 1000 + 160 \<and>
   map isBeat (states (constructor default_options) (spike_inputs 1000 3)) =
     [False, False, False, False, False, False, False, False, False, False,
      True, False, False, False] \<and>
   getBeatIntensity (states (constructor default_options) (spike_inputs 1000 3) ! 10) =
     93 / 100 \<and>
   getBeatIntensity (states (constructor default_options) (spike_inputs 1000 3) ! 11) =
     getBeatIntensity (states (constructor default_options) (spike_inputs 1000 3) ! 10) *
     (93 / 100) \<and>
   getBeatIntensity (states (constructor default_options) (spike_inputs 1000 3) ! 13) =
     getBeatIntensity (states (constructor default_options) (spike_inputs 1000 3) ! 12) *
     (93 / 100)"
proof -
  let ?d0 = "constructor default_options"
  have cfg: "sensitivity ?d0 = 7 / 5" "historyLength ?d0 = 30" "cooldownMs ?d0 = 180"
    "decayRate ?d0 = 93 / 100"
    by (simp_all add: constructor_def default_options_def or_default_def)
  note scenario = spike_scenario [of ?d0 default_options 1000 3]
  have all: "map isBeat (states ?d0 (spike_inputs 1000 3)) =
           replicate 10 False @ [True] @ replicate 3 False \<and>
         getBeatIntensity (states ?d0 (spike_inputs 1000 3) ! 10) = decayRate ?d0 \<and>
         (\<forall>k<3. getBeatIntensity (states ?d0 (spike_inputs 1000 3) ! (11 + k)) =
                 getBeatIntensity (states ?d0 (spike_inputs 1000 3) ! (10 + k)) * decayRate ?d0)"
    by (rule scenario) (simp_all add: cfg)
  have step: "getBeatIntensity (states ?d0 (spike_inputs 1000 3) ! (11 + k)) =
       getBeatIntensity (states ?d0 (spike_inputs 1000 3) ! (10 + k)) * decayRate ?d0"
    if "k < 3" for k
    using all that by blast
  have k0: "getBeatIntensity (states ?d0 (spike_inputs 1000 3) ! 11) =
       getBeatIntensity (states ?d0 (spike_inputs 1000 3) ! 10) * decayRate ?d0"
    using step [of 0] by simp
  have k2: "getBeatIntensity (states ?d0 (spike_inputs 1000 3) ! 13) =
       getBeatIntensity (states ?d0 (spike_inputs 1000 3) ! 12) * decayRate ?d0"
    using step [of 2] by simp
  from all have beats: "map isBeat (states ?d0 (spike_inputs 1000 3)) =
     [False, False, False, False, False, False, False, False, False, False,
      True, False, False, False]"
    by (simp add: eval_nat_numeral)
  from all k0 k2 beats show ?thesis by (simp add: cfg)
qed

lemma spike_stats:
  assumes hist: "energyHistory d = replicate 10 0" and cap: "11 \<le> historyLength d"
  shows "window d 1 = [0, 0, 0, 0, 0, 0, 0, 0, 0, 0, 1] \<and>
         mean (window d 1) = 1 / 11 \<and> deviation (window d 1) = sqrt (10 / 121)"
proof -
  have w: "window d 1 = [0, 0, 0, 0, 0, 0, 0, 0, 0, 0, 1]"
    using cap by (simp add: window_def push_bounded_def Let_def hist eval_nat_numeral)
  have m: "mean (window d 1) = 1 / 11" by (simp add: w mean_def)
  have "deviation (window d 1) = sqrt (10 / 121)"
    unfolding deviation_def m by (simp add: w power2_eq_square)
  with w m show ?thesis by simp
qed

lemma no_beat_frame:
  "list_all (\<lambda>d'. \<not> p_isBeat d') (states d inputs) \<Longrightarrow>
     lastBeatTime (run d inputs) = lastBeatTime d"
proof (induction inputs arbitrary: d)
  case Nil
  then show ?case by simp
next
  case (Cons x rest)
  obtain e t where x: "x = (e, t)" by (cases x)
  from Cons.prems x have nf: "\<not> fires d e t"
    and rest: "list_all (\<lambda>d'. \<not> p_isBeat d') (states (update e t d) rest)"
    by (simp_all add: update_p_isBeat)
  from Cons.IH [OF rest] nf x show ?case by (simp add: update_lastBeatTime)
qed

lemma ten_zeros:
  assumes init: "energyHistory d = []" "lastBeatTime d = 0" and cap: "11 \<le> historyLength d"
  shows "list_all (\<lambda>d'. \<not> p_isBeat d')
           (states d (map (\<lambda>i. (0, t0 + 16 * real i)) [0 ..< 10])) \<and>
         energyHistory (run d (map (\<lambda>i. (0, t0 + 16 * real i)) [0 ..< 10])) =
           replicate 10 0 \<and>
         lastBeatTime (run d (map (\<lambda>i. (0, t0 + 16 * real i)) [0 ..< 10])) = 0"
proof -
  let ?A = "map (\<lambda>i. (0::real, t0 + 16 * real i)) [0 ..< 10]"
  have shape: "?A = map (\<lambda>t. (0, t)) (map (\<lambda>i. t0 + 16 * real i) [0 ..< 10])"
    by simp
  have quiet: "list_all (\<lambda>d'. \<not> p_isBeat d') (states d ?A)"
    unfolding shape by (rule constant_run_no_beat) (simp add: init)
  have zA: "list_all (\<lambda>x. fst x = 0) ?A" by (simp add: list_all_iff)
  have "energyHistory (run d ?A) = replicate 10 0"
    using quiet_history_grow [of d ?A] cap zA by (simp add: init)
  moreover have "lastBeatTime (run d ?A) = 0"
    using no_beat_frame [OF quiet] by (simp add: init)
  ultimately show ?thesis using quiet by simp
qed

lemma sqrt_10_121_lower: "3 / 11 < sqrt (10 / 121)"
  by (rule real_less_rsqrt) (simp add: power2_eq_square)

lemma sqrt_11_144_lower: "1 / 12 < sqrt (11 / 144)"
  by (rule real_less_rsqrt) (simp add: power2_eq_square)

lemma spike_inputs_0:
  "spike_inputs t0 0 = map (\<lambda>i. (0, t0 + 16 * real i)) [0 ..< 10] @ [(1, t0 + 160)]"
  by (simp add: spike_inputs_split)

lemma spike_inputs_1:
  "spike_inputs t0 1 =
     map (\<lambda>i. (0, t0 + 16 * real i)) [0 ..< 10] @ [(1, t0 + 160), (0, t0 + 176)]"
  by (simp add: spike_inputs_split)

lemma insensitive_spike:
  "map isBeat (states (constructor (default_options\<lparr>opt_sensitivity := Some 4\<rparr>))
                 (spike_inputs 1000 0)) = replicate 11 False"
proof -
  let ?d0 = "constructor (default_options\<lparr>opt_sensitivity := Some 4\<rparr>)"
  let ?A = "map (\<lambda>i. (0::real, 1000 + 16 * real i)) [0 ..< 10]"
  have cfg: "sensitivity ?d0 = 4" "historyLength ?d0 = 30" "energyHistory ?d0 = []"
    "lastBeatTime ?d0 = 0"
    by (simp_all add: constructor_def default_options_def or_default_def)
  have ten: "list_all (\<lambda>d'. \<not> p_isBeat d') (states ?d0 ?A)"
    "energyHistory (run ?d0 ?A) = replicate 10 0"
    using ten_zeros [of ?d0 1000] by (simp_all add: cfg)
  have cap: "11 \<le> historyLength (run ?d0 ?A)" by (simp add: cfg)
  have stats: "mean (window (run ?d0 ?A) 1) = 1 / 11"
    "deviation (window (run ?d0 ?A) 1) = sqrt (10 / 121)"
    using spike_stats [OF ten(2) cap] by blast+
  have "\<not> fires (run ?d0 ?A) 1 1160"
    using sqrt_10_121_lower by (simp add: fires_def stats cfg)
  then have "\<not> p_isBeat (update 1 1160 (run ?d0 ?A))" by (simp add: update_p_isBeat)
  then show ?thesis
    using all_false_replicate [OF ten(1)]
    by (simp add: spike_inputs_0 states_append isBeat_def eval_nat_numeral)
qed

lemma short_window_spike:
  "map isBeat (states (constructor (default_options\<lparr>opt_historyLength := Some 5\<rparr>))
                 (spike_inputs 1000 0)) = replicate 11 False"
  by (simp add: spike_inputs_def upt_conv_Cons isBeat_def concrete_run eval_nat_numeral)

lemma negative_sensitivity_spike:
  "map isBeat
     (states (constructor (default_options\<lparr>opt_sensitivity := Some (- 1),
                                            opt_cooldownMs := Some 1\<rparr>))
        (spike_inputs 1000 1)) = replicate 10 False @ [True, True]"
proof -
  let ?d0 = "constructor (default_options\<lparr>opt_sensitivity := Some (- 1),
                                           opt_cooldownMs := Some 1\<rparr>)"
  let ?A = "map (\<lambda>i. (0::real, 1000 + 16 * real i)) [0 ..< 10]"
  let ?d10 = "run ?d0 ?A"
  let ?dsp = "update 1 1160 ?d10"
  have cfg: "sensitivity ?d0 = - 1" "historyLength ?d0 = 30" "cooldownMs ?d0 = 1"
    "energyHistory ?d0 = []" "lastBeatTime ?d0 = 0"
    by (simp_all add: constructor_def default_options_def or_default_def)
  have ten: "list_all (\<lambda>d'. \<not> p_isBeat d') (states ?d0 ?A)"
    "energyHistory ?d10 = replicate 10 0" "lastBeatTime ?d10 = 0"
    using ten_zeros [of ?d0 1000] by (simp_all add: cfg)
  have cap: "11 \<le> historyLength ?d10" by (simp add: cfg)
  have stats: "window ?d10 1 = [0, 0, 0, 0, 0, 0, 0, 0, 0, 0, 1]"
    "mean (window ?d10 1) = 1 / 11" "deviation (window ?d10 1) = sqrt (10 / 121)"
    using spike_stats [OF ten(2) cap] by blast+
  have lit: "mean [0, 0, 0, 0, 0, 0, 0, 0, 0, 0, 1] = 1 / 11"
    "deviation [0, 0, 0, 0, 0, 0, 0, 0, 0, 0, 1] = sqrt (10 / 121)"
    using stats by simp_all
  have f1: "fires ?d10 1 1160"
    using sqrt_10_121_lower by (simp add: fires_def stats(1) lit cfg ten(3))
  have e2: "energyHistory ?dsp = [0, 0, 0, 0, 0, 0, 0, 0, 0, 0, 1]"
    by (simp add: stats(1))
  have w2: "window ?dsp 0 = [0, 0, 0, 0, 0, 0, 0, 0, 0, 0, 1, 0]"
    unfolding window_def e2 by (simp add: push_bounded_def Let_def cfg)
  have m2: "mean [0, 0, 0, 0, 0, 0, 0, 0, 0, 0, 1, 0] = 1 / 12" by (simp add: mean_def)
  have d2: "deviation [0, 0, 0, 0, 0, 0, 0, 0, 0, 0, 1, 0] = sqrt (11 / 144)"
    unfolding deviation_def m2 by (simp add: power2_eq_square)
  have l2: "lastBeatTime ?dsp = 1160" using f1 by (simp add: update_lastBeatTime)
  have f2: "fires ?dsp 0 1176"
    using sqrt_11_144_lower by (simp add: fires_def w2 m2 d2 cfg l2)
  show ?thesis
    unfolding spike_inputs_1
    using all_false_replicate [OF ten(1)] f1 f2
    by (simp add: states_append isBeat_def update_p_isBeat)
qed

text \<open>
  The claim as stated, with the cooldown as its only assumption, fails for some
  configurations; in each run below the first sample is at 1000 ms, so the cooldown is
  over at the spike. With \<open>sensitivity: 4\<close> the spike is under the threshold
  \<open>1/11 + 4 \<surd>10/11\<close> and no beat is reported. With \<open>historyLength: 5\<close> the window
  never holds 10 samples and no beat is reported. With \<open>sensitivity: -1\<close> and
  \<open>cooldownMs: 1\<close> the zero that follows the spike is reported as a second beat.
\<close>

theorem spike_scenario_fails:
  "cooldownMs (constructor (default_options\<lparr>opt_sensitivity := Some 4\<rparr>)) < 1000 + 160 \<and>
   map isBeat (states (constructor (default_options\<lparr>opt_sensitivity := Some 4\<rparr>))
                 (spike_inputs 1000 0)) = replicate 11 False \<and>
   cooldownMs (constructor (default_options\<lparr>opt_historyLength := Some 5\<rparr>)) < 1000 + 160 \<and>
   map isBeat (states (constructor (default_options\<lparr>opt_historyLength := Some 5\<rparr>))
                 (spike_inputs 1000 0)) = replicate 11 False \<and>
   cooldownMs (constructor (default_options\<lparr>opt_sensitivity := Some (- 1),
                                              opt_cooldownMs := Some 1\<rparr>)) < 1000 + 160 \<and>
   map isBeat
     (states (constructor (default_options\<lparr>opt_sensitivity := Some (- 1),
                                            opt_cooldownMs := Some 1\<rparr>))
        (spike_inputs 1000 1)) = replicate 10 False @ [True, True]"
  using insensitive_spike short_window_spike negative_sensitivity_spike
  by (simp add: constructor_def default_options_def or_default_def)

section \<open>Tempo estimation\<close>

lemma consecutive_intervals_nth:
  "consecutive_intervals bt = map (\<lambda>i. bt ! i - bt ! (i - 1)) [1 ..< length bt]"
proof (induction bt rule: consecutive_intervals.induct)
  case (1 a b rest)
  have "[1 ..< length (a # b # rest)] = 1 # [Suc 1 ..< Suc (length (b # rest))]"
    by (subst upt_rec) simp
  then have "[1 ..< length (a # b # rest)] = 1 # map Suc [1 ..< length (b # rest)]"
    by (simp only: map_Suc_upt)
  moreover have "map (\<lambda>i. (a # b # rest) ! i - (a # b # rest) ! (i - 1))
                   (map Suc [1 ..< length (b # rest)]) =
                 map (\<lambda>i. (b # rest) ! i - (b # rest) ! (i - 1)) [1 ..< length (b # rest)]"
    by (auto simp add: nth_Cons split: nat.splits)
  ultimately show ?case using 1 by simp
qed simp_all

lemma concat_if_filter:
  "concat (map (\<lambda>i. let v = f i in if P v then [v] else []) xs) = filter P (map f xs)"
  by (induction xs) (simp_all add: Let_def)

lemma tempo_intervals_filter:
  "tempo_intervals bt = filter (\<lambda>x. 200 < x \<and> x < 2000) (consecutive_intervals bt)"
  unfolding tempo_intervals_def consecutive_intervals_nth
  by (rule concat_if_filter)

lemma updateTempoEstimate_estimate:
  "estimatedBPM (updateTempoEstimate d) = tempo_estimate (estimatedBPM d) (beatTimes d)"
  by (simp add: updateTempoEstimate_def tempo_estimate_def tempo_intervals_filter Let_def
        median_interval_def not_less)

lemma last_n_append_last_n:
  "last_n n (last_n n xs @ ys) = last_n n (xs @ ys)"
  by (cases "n \<le> length xs") (simp_all add: last_n_def ac_simps)

lemma push_bounded_last_n:
  "length bt \<le> 16 \<Longrightarrow> push_bounded 16 t bt = last_n 16 (bt @ [t])"
proof (cases "length bt = 16")
  case True
  then obtain a rest where bt: "bt = a # rest" by (cases bt) auto
  with True have "length rest = 15" by simp
  then show ?thesis by (simp add: bt push_bounded_def last_n_def Let_def)
next
  case False
  assume "length bt \<le> 16"
  with False have "length bt < 16" by simp
  then show ?thesis by (simp add: push_bounded_def last_n_def Let_def)
qed

lemma length_push_bounded: "length bt \<le> 16 \<Longrightarrow> length (push_bounded 16 t bt) \<le> 16"
  by (simp add: push_bounded_def Let_def)

lemma beat_stamps_Cons:
  "beat_stamps d ((e, t) # rest) =
     (if fires d e t then [t] else []) @ beat_stamps (update e t d) rest"
  by (simp add: beat_stamps_def isBeat_def update_p_isBeat)

lemma beatTimes_run:
  "length (beatTimes d) \<le> 16 \<Longrightarrow>
     beatTimes (run d inputs) = last_n 16 (beatTimes d @ beat_stamps d inputs)"
proof (induction inputs arbitrary: d)
  case Nil
  then show ?case by (simp add: beat_stamps_def last_n_def)
next
  case (Cons x rest)
  obtain e t where x: "x = (e, t)" by (cases x)
  have len: "length (beatTimes (update e t d)) \<le> 16"
    using Cons.prems by (simp add: update_beatTimes length_push_bounded)
  have "beatTimes (run (update e t d) rest) =
          last_n 16 (beatTimes (update e t d) @ beat_stamps (update e t d) rest)"
    using len by (rule Cons.IH)
  also have "\<dots> = last_n 16 (beatTimes d @ beat_stamps d ((e, t) # rest))"
  proof (cases "fires d e t")
    case True
    then show ?thesis
      using Cons.prems last_n_append_last_n [of 16 "beatTimes d @ [t]"]
      by (simp add: update_beatTimes push_bounded_last_n beat_stamps_Cons)
  next
    case False
    then show ?thesis by (simp add: update_beatTimes beat_stamps_Cons)
  qed
  finally show ?case using x by simp
qed


text \<open>
  Claim C5, as amended. On a detector started fresh (or reset), after any sequence of
  updates: an update that reports no beat leaves \<open>getBPM()\<close> as it was; an update that
  reports a beat recomputes it from the last at most 16 beat timestamps of the session,
  this one included. The intervals between neighbouring timestamps that are strictly
  greater than 200 ms and strictly less than 2000 ms are kept (200 and 2000 themselves
  are dropped). If there are at least 4 timestamps and at least 3 kept intervals, the
  estimate becomes \<open>Math.round(60000 / m)\<close>, where \<open>m\<close> is the kept interval at index
  \<open>\<lfloor>count / 2\<rfloor>\<close> in ascending order; otherwise it stays as it was.
\<close>

theorem tempo_recomputed_on_beat:
  assumes "d0 = constructor opts \<or> d0 = reset d1"
  shows "getBPM (run d0 (inputs @ [(e, t)])) =
    (if isBeat (run d0 (inputs @ [(e, t)]))
     then tempo_estimate (getBPM (run d0 inputs))
            (last_n 16 (beat_stamps d0 (inputs @ [(e, t)])))
     else getBPM (run d0 inputs))"
proof -
  let ?d = "run d0 inputs"
  have empty: "beatTimes d0 = []"
    using assms by (auto simp add: constructor_def reset_def)
  have step: "run d0 (inputs @ [(e, t)]) = update e t ?d"
    by (simp add: run_append)
  have "beatTimes (run d0 (inputs @ [(e, t)])) =
          last_n 16 (beatTimes d0 @ beat_stamps d0 (inputs @ [(e, t)]))"
    by (rule beatTimes_run) (simp add: empty)
  then have stamps: "beatTimes (update e t ?d) =
          last_n 16 (beat_stamps d0 (inputs @ [(e, t)]))"
    by (simp add: step empty)
  show ?thesis
  proof (cases "fires ?d e t")
    case True
    then have "push_bounded 16 t (beatTimes ?d) =
        last_n 16 (beat_stamps d0 (inputs @ [(e, t)]))"
      using stamps by (simp add: update_beatTimes)
    with True show ?thesis
      unfolding step
      by (simp add: getBPM_def isBeat_def update_p_isBeat update_estimatedBPM
            updateTempoEstimate_estimate)
  next
    case False
    then show ?thesis
      unfolding step
      by (simp add: getBPM_def isBeat_def update_p_isBeat update_estimatedBPM)
  qed
qed

lemma impulse_train_unfold:
  "impulse_train gap =
     (replicate 9 (0, 1000) @ [(1, 1000)]) @
     (replicate 9 (0, 1000 + gap) @ [(1, 1000 + gap)]) @
     (replicate 9 (0, 1000 + gap * 2) @ [(1, 1000 + gap * 2)]) @
     (replicate 9 (0, 1000 + gap * 3) @ [(1, 1000 + gap * 3)])"
  by (simp add: impulse_train_def upt_conv_Cons)

lemma push_bounded_fifo:
  assumes "0 < H" and "length xs \<le> H"
  shows "push_bounded (real H) x xs = last_n H (xs @ [x])"
proof (cases "length xs = H")
  case True
  with assms(1) obtain a rest where xs: "xs = a # rest" by (cases xs) auto
  with True have "H = Suc (length rest)" by simp
  then show ?thesis by (simp add: xs push_bounded_def last_n_def Let_def)
next
  case False
  with assms(2) have "length xs < H" by simp
  then show ?thesis by (simp add: push_bounded_def last_n_def Let_def)
qed

lemma length_last_n_le: "length (last_n n xs) \<le> n"
  by (simp add: last_n_def)

lemma last_n_suffix: "length ys = n \<Longrightarrow> last_n n (xs @ ys) = ys"
  by (simp add: last_n_def)

lemma energyHistory_run:
  "historyLength d = real H \<Longrightarrow> 0 < H \<Longrightarrow> length (energyHistory d) \<le> H \<Longrightarrow>
     energyHistory (run d inputs) = last_n H (energyHistory d @ map fst inputs)"
proof (induction inputs arbitrary: d)
  case Nil
  then show ?case by (simp add: last_n_def)
next
  case (Cons x rest)
  obtain e t where x: "x = (e, t)" by (cases x)
  have w: "window d e = last_n H (energyHistory d @ [e])"
    using Cons.prems by (simp add: window_def push_bounded_fifo)
  have "energyHistory (run (update e t d) rest) =
          last_n H (energyHistory (update e t d) @ map fst rest)"
    using Cons.prems by (intro Cons.IH) (simp_all add: w length_last_n_le)
  then show ?case
    using last_n_append_last_n [of H "energyHistory d @ [e]" "map fst rest"]
    by (simp add: x w)
qed

lemma beat_stamps_Nil: "beat_stamps d [] = []"
  by (simp add: beat_stamps_def)

lemma beat_stamps_append:
  "beat_stamps d (xs @ ys) = beat_stamps d xs @ beat_stamps (run d xs) ys"
proof (induction d xs rule: run.induct)
  case (1 d)
  then show ?case by (simp add: beat_stamps_def)
next
  case (2 d e t rest)
  then show ?case by (simp add: beat_stamps_Cons)
qed

lemma quiet_stamps:
  "0 \<le> sensitivity d \<Longrightarrow> list_all (\<lambda>x. 0 \<le> x) (energyHistory d) \<Longrightarrow>
   list_all (\<lambda>x. fst x = 0) zs \<Longrightarrow> beat_stamps d zs = []"
proof (induction zs arbitrary: d)
  case Nil
  then show ?case by (simp add: beat_stamps_def)
next
  case (Cons z zs)
  obtain t where z: "z = (0, t)" using Cons.prems(3) by (cases z) simp
  have nf: "\<not> fires d 0 t" using Cons.prems(1,2) by (rule zero_no_fire)
  have "list_all (\<lambda>x. 0 \<le> x) (energyHistory (update 0 t d))"
    using Cons.prems(2) by (simp add: window_all)
  then have "beat_stamps (update 0 t d) zs = []"
    using Cons.prems by (intro Cons.IH) simp_all
  with nf z show ?case by (simp add: beat_stamps_Cons)
qed

lemma quiet_tempo:
  "0 \<le> sensitivity d \<Longrightarrow> list_all (\<lambda>x. 0 \<le> x) (energyHistory d) \<Longrightarrow>
   list_all (\<lambda>x. fst x = 0) zs \<Longrightarrow>
   beatTimes (run d zs) = beatTimes d \<and> estimatedBPM (run d zs) = estimatedBPM d"
proof (induction zs arbitrary: d)
  case Nil
  then show ?case by simp
next
  case (Cons z zs)
  obtain t where z: "z = (0, t)" using Cons.prems(3) by (cases z) simp
  have nf: "\<not> fires d 0 t" using Cons.prems(1,2) by (rule zero_no_fire)
  have "list_all (\<lambda>x. 0 \<le> x) (energyHistory (update 0 t d))"
    using Cons.prems(2) by (simp add: window_all)
  then have "beatTimes (run (update 0 t d) zs) = beatTimes (update 0 t d) \<and>
      estimatedBPM (run (update 0 t d) zs) = estimatedBPM (update 0 t d)"
    using Cons.prems by (intro Cons.IH) simp_all
  with nf z show ?case by (simp add: update_beatTimes update_estimatedBPM)
qed

text \<open>
  One pulse on a window of ten: nine zeros and a sample of 1 at time \<open>t\<close>, the cooldown
  being over at \<open>t\<close>. Whatever the window held before, it now holds the nine zeros and
  the 1 (mean 0.1, deviation 0.3), and the sample is a beat.
\<close>

lemma pulse:
  assumes H: "historyLength d = 10" and len: "length (energyHistory d) \<le> 10"
    and nn: "list_all (\<lambda>x. 0 \<le> x) (energyHistory d)"
    and s: "0 \<le> sensitivity d" "sensitivity d < 3"
    and cd: "cooldownMs d < t - lastBeatTime d"
  shows "p_isBeat (run d (replicate 9 (0, t) @ [(1, t)])) \<and>
    lastBeatTime (run d (replicate 9 (0, t) @ [(1, t)])) = t \<and>
    energyHistory (run d (replicate 9 (0, t) @ [(1, t)])) = [0, 0, 0, 0, 0, 0, 0, 0, 0, 1] \<and>
    beatTimes (run d (replicate 9 (0, t) @ [(1, t)])) = push_bounded 16 t (beatTimes d) \<and>
    estimatedBPM (run d (replicate 9 (0, t) @ [(1, t)])) =
      tempo_estimate (estimatedBPM d) (push_bounded 16 t (beatTimes d)) \<and>
    estimatedBPM (run d (replicate 9 (0, t))) = estimatedBPM d \<and>
    beat_stamps d (replicate 9 (0, t) @ [(1, t)]) = [t]"
proof -
  let ?zs = "replicate 9 (0::real, t)"
  let ?d9 = "run d ?zs"
  have zs: "list_all (\<lambda>x. fst x = 0) ?zs" by (simp add: list_all_iff)
  have H': "historyLength d = real (10::nat)" using H by simp
  have "energyHistory (run d (?zs @ [(1, t)])) =
      last_n 10 (energyHistory d @ map fst (?zs @ [(1, t)]))"
    using H' len by (intro energyHistory_run) simp_all
  also have "\<dots> = last_n 10 (energyHistory d @ [0, 0, 0, 0, 0, 0, 0, 0, 0, 1])"
    by (simp add: eval_nat_numeral)
  also have "\<dots> = [0, 0, 0, 0, 0, 0, 0, 0, 0, 1]"
    by (rule last_n_suffix) simp
  finally have hist: "energyHistory (run d (?zs @ [(1, t)])) = [0, 0, 0, 0, 0, 0, 0, 0, 0, 1]" .
  then have w: "window ?d9 1 = [0, 0, 0, 0, 0, 0, 0, 0, 0, 1]"
    by (simp add: run_append)
  have frame: "lastBeatTime ?d9 = lastBeatTime d" "beatTimes ?d9 = beatTimes d"
    "estimatedBPM ?d9 = estimatedBPM d"
    using quiet_lastBeatTime [OF s(1) nn zs] quiet_tempo [OF s(1) nn zs] by simp_all
  have m: "mean [0, 0, 0, 0, 0, 0, 0, 0, 0, 1] = 1 / 10" by (simp add: mean_def)
  have dev: "deviation [0, 0, 0, 0, 0, 0, 0, 0, 0, 1] = 3 / 10"
    unfolding deviation_def m by (simp add: power2_eq_square sqrt_9_100)
  have f: "fires ?d9 1 t"
    using s cd by (simp add: fires_def w m dev frame)
  have stamps: "beat_stamps d (?zs @ [(1, t)]) = [t]"
    using quiet_stamps [OF s(1) nn zs] f
    by (simp add: beat_stamps_append beat_stamps_Cons beat_stamps_Nil)
  show ?thesis
    using f hist stamps frame
    by (simp add: run_append update_p_isBeat update_lastBeatTime update_beatTimes
          update_estimatedBPM updateTempoEstimate_estimate)
qed

lemma train_run:
  assumes d0: "d0 = constructor (default_options\<lparr>opt_historyLength := Some 10\<rparr>)"
    and gap: "180 < gap"
  shows "p_isBeat (run d0 (impulse_train gap)) \<and>
    beat_stamps d0 (impulse_train gap) =
      [1000, 1000 + gap, 1000 + gap * 2, 1000 + gap * 3] \<and>
    estimatedBPM (run d0 (butlast (impulse_train gap))) = 0 \<and>
    estimatedBPM (run d0 (impulse_train gap)) =
      tempo_estimate 0 [1000, 1000 + gap, 1000 + gap * 2, 1000 + gap * 3]"
proof -
  let ?p0 = "replicate 9 (0, 1000) @ [(1, 1000)]"
  let ?p1 = "replicate 9 (0, 1000 + gap) @ [(1, 1000 + gap)]"
  let ?p2 = "replicate 9 (0, 1000 + gap * 2) @ [(1, 1000 + gap * 2)]"
  let ?p3 = "replicate 9 (0, 1000 + gap * 3) @ [(1, 1000 + gap * 3)]"
  let ?d1 = "run d0 ?p0"
  let ?d2 = "run ?d1 ?p1"
  let ?d3 = "run ?d2 ?p2"
  have cfg: "historyLength d0 = 10" "sensitivity d0 = 7 / 5" "cooldownMs d0 = 180"
    "energyHistory d0 = []" "lastBeatTime d0 = 0" "beatTimes d0 = []" "estimatedBPM d0 = 0"
    by (simp_all add: d0 constructor_def default_options_def or_default_def)
  have te: "tempo_estimate 0 bt = 0" if "length bt < 4" for bt
    using that by (simp add: tempo_estimate_def)
  have s1: "p_isBeat ?d1 \<and> lastBeatTime ?d1 = 1000 \<and>
      energyHistory ?d1 = [0, 0, 0, 0, 0, 0, 0, 0, 0, 1] \<and> beatTimes ?d1 = [1000] \<and>
      estimatedBPM ?d1 = 0 \<and> beat_stamps d0 ?p0 = [1000]"
    using pulse [of d0 1000] by (simp add: cfg push_bounded_def te)
  have s2: "p_isBeat ?d2 \<and> lastBeatTime ?d2 = 1000 + gap \<and>
      energyHistory ?d2 = [0, 0, 0, 0, 0, 0, 0, 0, 0, 1] \<and>
      beatTimes ?d2 = [1000, 1000 + gap] \<and>
      estimatedBPM ?d2 = 0 \<and> beat_stamps ?d1 ?p1 = [1000 + gap]"
    using pulse [of ?d1 "1000 + gap"] s1 gap by (simp add: cfg push_bounded_def te)
  have s3: "p_isBeat ?d3 \<and> lastBeatTime ?d3 = 1000 + gap * 2 \<and>
      energyHistory ?d3 = [0, 0, 0, 0, 0, 0, 0, 0, 0, 1] \<and>
      beatTimes ?d3 = [1000, 1000 + gap, 1000 + gap * 2] \<and>
      estimatedBPM ?d3 = 0 \<and> beat_stamps ?d2 ?p2 = [1000 + gap * 2]"
    using pulse [of ?d2 "1000 + gap * 2"] s2 gap by (simp add: cfg push_bounded_def te)
  have s4: "p_isBeat (run ?d3 ?p3) \<and>
      estimatedBPM (run ?d3 ?p3) =
        tempo_estimate 0 [1000, 1000 + gap, 1000 + gap * 2, 1000 + gap * 3] \<and>
      estimatedBPM (run ?d3 (replicate 9 (0, 1000 + gap * 3))) = 0 \<and>
      beat_stamps ?d3 ?p3 = [1000 + gap * 3]"
    using pulse [of ?d3 "1000 + gap * 3"] s3 gap by (simp add: cfg push_bounded_def)
  have whole: "impulse_train gap = ?p0 @ ?p1 @ ?p2 @ ?p3"
    by (rule impulse_train_unfold)
  have front: "butlast (impulse_train gap) =
      ?p0 @ ?p1 @ ?p2 @ replicate 9 (0, 1000 + gap * 3)"
    unfolding whole by (simp add: butlast_append)
  have r: "run d0 (?p0 @ ?p1 @ ?p2 @ ?p3) = run ?d3 ?p3"
    by (simp only: run_append)
  have rb: "run d0 (?p0 @ ?p1 @ ?p2 @ replicate 9 (0, 1000 + gap * 3)) =
      run ?d3 (replicate 9 (0, 1000 + gap * 3))"
    by (simp only: run_append)
  have st: "beat_stamps d0 (?p0 @ ?p1 @ ?p2 @ ?p3) =
      beat_stamps d0 ?p0 @ beat_stamps ?d1 ?p1 @ beat_stamps ?d2 ?p2 @ beat_stamps ?d3 ?p3"
    by (simp only: beat_stamps_append [of _ "_ @ [_]"] run_append)
  show ?thesis
    unfolding front unfolding whole r rb st
    using s1 s2 s3 s4 by simp
qed


lemma impulse_train_snoc:
  "butlast (impulse_train gap) @ [(1, 1000 + gap * 3)] = impulse_train gap"
  unfolding impulse_train_unfold by (simp add: butlast_append)

lemma estimate_700: "tempo_estimate 0 [1000, 1700, 2400, 3100] = 86"
  by (simp add: tempo_estimate_def median_interval_def js_round_def)

lemma estimate_2000: "tempo_estimate 0 [1000, 3000, 5000, 7000] = 0"
  by (simp add: tempo_estimate_def)

text \<open>
  A window of ten and four impulses 700 ms apart: the fourth beat sets the estimate to
  \<open>Math.round(60000 / 700) = 86\<close>, as the amended claim says.
\<close>

theorem tempo_recomputed_on_beat_witness:
  "isBeat (run (constructor (default_options\<lparr>opt_historyLength := Some 10\<rparr>))
            (butlast (impulse_train 700) @ [(1, 3100)])) \<and>
   last_n 16 (beat_stamps (constructor (default_options\<lparr>opt_historyLength := Some 10\<rparr>))
            (butlast (impulse_train 700) @ [(1, 3100)])) = [1000, 1700, 2400, 3100] \<and>
   getBPM (run (constructor (default_options\<lparr>opt_historyLength := Some 10\<rparr>))
            (butlast (impulse_train 700))) = 0 \<and>
   getBPM (run (constructor (default_options\<lparr>opt_historyLength := Some 10\<rparr>))
            (butlast (impulse_train 700) @ [(1, 3100)])) = 86"
proof -
  let ?d0 = "constructor (default_options\<lparr>opt_historyLength := Some 10\<rparr>)"
  have snoc: "butlast (impulse_train 700) @ [(1, 3100)] = impulse_train 700"
    using impulse_train_snoc [of 700] by simp
  have facts: "p_isBeat (run ?d0 (impulse_train 700))"
    "beat_stamps ?d0 (impulse_train 700) = [1000, 1700, 2400, 3100]"
    "estimatedBPM (run ?d0 (butlast (impulse_train 700))) = 0"
    using train_run [of ?d0 700] by simp_all
  have "getBPM (run ?d0 (butlast (impulse_train 700) @ [(1, 3100)])) =
    (if isBeat (run ?d0 (butlast (impulse_train 700) @ [(1, 3100)]))
     then tempo_estimate (getBPM (run ?d0 (butlast (impulse_train 700))))
            (last_n 16 (beat_stamps ?d0 (butlast (impulse_train 700) @ [(1, 3100)])))
     else getBPM (run ?d0 (butlast (impulse_train 700))))"
    by (rule tempo_recomputed_on_beat [of ?d0 "default_options\<lparr>opt_historyLength := Some 10\<rparr>"])
      simp
  then show ?thesis
    unfolding snoc using facts
    by (simp add: isBeat_def getBPM_def last_n_def estimate_700)
qed

text \<open>
  The claim as stated fails twice. Four beats 700 ms apart give
  \<open>getBPM() = 86\<close>, not \<open>60000 / 700\<close>: the code rounds. Four beats exactly 2000 ms
  apart leave \<open>getBPM()\<close> at 0, although every interval lies in \<open>[200, 2000]\<close> and
  the claim would have 30: the code drops an interval of exactly 2000 (or 200).
\<close>

theorem tempo_claim_fails:
  "isBeat (run (constructor (default_options\<lparr>opt_historyLength := Some 10\<rparr>))
            (impulse_train 700)) \<and>
   getBPM (run (constructor (default_options\<lparr>opt_historyLength := Some 10\<rparr>))
            (impulse_train 700)) = 86 \<and>
   claimed_bpm
     (getBPM (run (constructor (default_options\<lparr>opt_historyLength := Some 10\<rparr>))
                (butlast (impulse_train 700))))
     (last_n 16 (beat_stamps (constructor (default_options\<lparr>opt_historyLength := Some 10\<rparr>))
                   (impulse_train 700))) = 600 / 7 \<and>
   isBeat (run (constructor (default_options\<lparr>opt_historyLength := Some 10\<rparr>))
            (impulse_train 2000)) \<and>
   getBPM (run (constructor (default_options\<lparr>opt_historyLength := Some 10\<rparr>))
            (impulse_train 2000)) = 0 \<and>
   claimed_bpm
     (getBPM (run (constructor (default_options\<lparr>opt_historyLength := Some 10\<rparr>))
                (butlast (impulse_train 2000))))
     (last_n 16 (beat_stamps (constructor (default_options\<lparr>opt_historyLength := Some 10\<rparr>))
                   (impulse_train 2000))) = 30"
proof -
  let ?d0 = "constructor (default_options\<lparr>opt_historyLength := Some 10\<rparr>)"
  have a: "p_isBeat (run ?d0 (impulse_train 700))"
    "beat_stamps ?d0 (impulse_train 700) = [1000, 1700, 2400, 3100]"
    "estimatedBPM (run ?d0 (butlast (impulse_train 700))) = 0"
    "estimatedBPM (run ?d0 (impulse_train 700)) = 86"
    using train_run [of ?d0 700] by (simp_all add: estimate_700)
  have b: "p_isBeat (run ?d0 (impulse_train 2000))"
    "beat_stamps ?d0 (impulse_train 2000) = [1000, 3000, 5000, 7000]"
    "estimatedBPM (run ?d0 (butlast (impulse_train 2000))) = 0"
    "estimatedBPM (run ?d0 (impulse_train 2000)) = 0"
    using train_run [of ?d0 2000] by (simp_all add: estimate_2000)
  have c: "claimed_bpm 0 [1000, 1700, 2400, 3100] = 600 / 7"
    "claimed_bpm 0 [1000, 3000, 5000, 7000] = 30"
    by (simp_all add: claimed_bpm_def median_interval_def)
  show ?thesis
    by (simp add: isBeat_def getBPM_def last_n_def a b c)
qed

section \<open>Loading a demo\<close>

lemma load_no_canvas:
  "canvas (runner p) = None \<Longrightarrow>
     DemoRunner_load ident opts p =
       (Inr False, p\<lparr>console := console p @ [''DemoRunner: No canvas set'']\<rparr>)"
  by (simp add: DemoRunner_load_def)

lemma load_unknown:
  "canvas (runner p) = Some cv \<Longrightarrow> registry (runner p) ident = None \<Longrightarrow>
     fst (DemoRunner_load ident opts p) = Inr False \<and>
     runner (snd (DemoRunner_load ident opts p)) = runner p \<and>
     released (snd (DemoRunner_load ident opts p)) = released p"
  by (simp add: DemoRunner_load_def)

text \<open>
  The failure half of claim C8 holds: without a canvas, or for an id that is not
  registered, \<open>load\<close> returns false and neither the runner nor any demo changes.
\<close>

lemma load_failure_leaves_runner:
  assumes "canvas (runner p) = None \<or> registry (runner p) ident = None"
  shows "fst (DemoRunner_load ident opts p) = Inr False \<and>
         runner (snd (DemoRunner_load ident opts p)) = runner p \<and>
         released (snd (DemoRunner_load ident opts p)) = released p"
  using assms load_no_canvas [of p ident opts] load_unknown [of p _ ident opts]
  by (cases "canvas (runner p)") auto

text \<open>
  So does the success half for a class whose constructor completes: the previous demo
  is destroyed and dropped, and the new instance is current and started.
\<close>

lemma load_known:
  "canvas (runner p) = Some cv \<Longrightarrow> registry (runner p) ident = Some cls \<Longrightarrow>
   BaseDemo_constructor cls cv opts = Inr demo \<Longrightarrow>
     DemoRunner_load ident opts p =
       (Inr True,
        p\<lparr>released := released p @
             (case currentDemo (runner p) of None \<Rightarrow> [] | Some d \<Rightarrow> [BaseDemo_destroy d]),
          runner := (runner p)
             \<lparr>currentDemo := Some (BaseDemo_start demo), currentOptions := opts\<rparr>\<rparr>)"
  by (simp add: DemoRunner_load_def DemoRunner_stop_def Let_def split: option.splits)

lemma load_throws:
  "canvas (runner p) = Some cv \<Longrightarrow> registry (runner p) ident = Some cls \<Longrightarrow>
   BaseDemo_constructor cls cv opts = Inl err \<Longrightarrow>
     DemoRunner_load ident opts p =
       (Inl err,
        p\<lparr>released := released p @
             (case currentDemo (runner p) of None \<Rightarrow> [] | Some d \<Rightarrow> [BaseDemo_destroy d]),
          runner := (runner p)\<lparr>currentDemo := None, currentOptions := opts\<rparr>\<rparr>)"
  by (simp add: DemoRunner_load_def DemoRunner_stop_def Let_def split: option.splits)

lemma constructor_completes:
  "context2d cv \<Longrightarrow> \<not> onResizeReadsInitState cls \<Longrightarrow>
     BaseDemo_constructor cls cv opts =
       Inr \<lparr> demoClass = cls, demoCanvas = cv, demoOptions = getDefaultOptions cls ++ opts,
             isRunning = False, listening = True, initialized = False,
             initCalls = 0, frameRequests = 0 \<rparr>"
  by (simp add: BaseDemo_constructor_def BaseDemo_resize_def)

lemma gallery_page_eq:
  "gallery_page =
     \<lparr> runner =
         \<lparr> registry = [''simple-particles'' \<mapsto> SimpleParticlesDemo,
                        ''fireworks'' \<mapsto> FireworksDemo],
           currentDemo =
             Some \<lparr> demoClass = FireworksDemo, demoCanvas = demoCanvas_element,
                    demoOptions = getDefaultOptions FireworksDemo,
                    isRunning = True, listening = True, initialized = True,
                    initCalls = 1, frameRequests = 1 \<rparr>,
           canvas = Some demoCanvas_element,
           currentOptions = Map.empty \<rparr>,
       released = [], console = [] \<rparr>"
proof -
  have c: "context2d demoCanvas_element" "\<not> onResizeReadsInitState FireworksDemo"
    by (simp_all add: demoCanvas_element_def FireworksDemo_def)
  show ?thesis
    by (simp add: gallery_page_def new_page_def DemoRunner_constructor_def
          DemoRunner_setCanvas_def DemoRunner_register_def BaseDemo_start_def
          load_known [where cv = demoCanvas_element and cls = FireworksDemo,
            OF _ _ constructor_completes [OF c]])
qed

text \<open>
  Claim C8 fails on the gallery's own registry. The canvas is bound, the fireworks
  demo is running and \<open>'simple-particles'\<close> is registered, yet
  \<open>load('simple-particles', {hue: 10})\<close> does not return true: the constructor of
  \<open>SimpleParticlesDemo\<close> throws a TypeError (its \<open>onResize\<close> reads \<open>this.particles\<close>
  before \<open>init()\<close> has created it). By then the running demo has been destroyed and
  \<open>currentOptions\<close> overwritten, and no demo is current.
\<close>

theorem load_simple_particles_throws:
  "canvas (runner gallery_page) = Some demoCanvas_element \<and>
   registry (runner gallery_page) ''simple-particles'' = Some SimpleParticlesDemo \<and>
   map_option isRunning (currentDemo (runner gallery_page)) = Some True \<and>
   fst (DemoRunner_load ''simple-particles'' [''hue'' \<mapsto> JNum 10] gallery_page) =
     Inl TypeError \<and>
   currentDemo
     (runner (snd (DemoRunner_load ''simple-particles'' [''hue'' \<mapsto> JNum 10] gallery_page))) =
     None \<and>
   currentOptions
     (runner (snd (DemoRunner_load ''simple-particles'' [''hue'' \<mapsto> JNum 10] gallery_page))) =
     [''hue'' \<mapsto> JNum 10] \<and>
   released (snd (DemoRunner_load ''simple-particles'' [''hue'' \<mapsto> JNum 10] gallery_page)) =
     [\<lparr> demoClass = FireworksDemo, demoCanvas = demoCanvas_element,
        demoOptions = getDefaultOptions FireworksDemo,
        isRunning = False, listening = False, initialized = True,
        initCalls = 1, frameRequests = 1 \<rparr>]"
proof -
  have throws: "BaseDemo_constructor SimpleParticlesDemo demoCanvas_element
      [''hue'' \<mapsto> JNum 10] = Inl TypeError"
    by (simp add: BaseDemo_constructor_def BaseDemo_resize_def SimpleParticlesDemo_def
          demoCanvas_element_def)
  have bound: "canvas (runner gallery_page) = Some demoCanvas_element"
    "registry (runner gallery_page) ''simple-particles'' = Some SimpleParticlesDemo"
    by (simp_all add: gallery_page_eq)
  note result = load_throws [OF bound throws]
  show ?thesis
    unfolding result
    by (simp add: gallery_page_eq BaseDemo_destroy_def BaseDemo_stop_def)
qed

section \<open>Constant energy in binary64 arithmetic\<close>

lemma rounded_identity:
  "constructor_rounded (\<lambda>x. x) = constructor"
  "updateTempoEstimate_rounded (\<lambda>x. x) = updateTempoEstimate"
  "update_rounded (\<lambda>x. x) = update"
proof -
  show "constructor_rounded (\<lambda>x. x) = constructor"
    by (rule ext) (simp add: constructor_rounded_def constructor_def)
  have "tempo_intervals_rounded (\<lambda>x. x) = tempo_intervals"
    by (rule ext) (simp add: tempo_intervals_rounded_def tempo_intervals_def)
  then show t: "updateTempoEstimate_rounded (\<lambda>x. x) = updateTempoEstimate"
    by (intro ext) (simp add: updateTempoEstimate_rounded_def updateTempoEstimate_def Let_def)
  show "update_rounded (\<lambda>x. x) = update"
    by (intro ext) (simp add: update_rounded_def update_def t Let_def)
qed

lemma floor_log2_eq:
  assumes "2 powi e \<le> x" and "x < 2 powi (e + 1)"
  shows "\<lfloor>log 2 x\<rfloor> = e"
proof -
  have "0 < (2::real) powi e" by simp
  with assms(1) have pos: "0 < x" by linarith
  have "real_of_int e \<le> log 2 x"
    using assms(1) pos by (simp add: le_log_iff powr_real_of_int')
  moreover have "log 2 x < real_of_int (e + 1)"
  proof -
    have "2 powr real_of_int (e + 1) = (2::real) powi (e + 1)"
      by (rule powr_real_of_int') simp_all
    with assms(2) have "x < 2 powr real_of_int (e + 1)" by (simp only:)
    with pos show ?thesis by (simp only: log_less_iff one_less_numeral_iff semiring_norm)
  qed
  ultimately show ?thesis by linarith
qed

text \<open>
  Rounding a number whose binade is known: with \<open>2\<^sup>e \<le> |x| < 2\<^sup>e\<^sup>+\<^sup>1\<close> the result is
  the nearest integer multiple of \<open>2\<^sup>e\<^sup>-\<^sup>5\<^sup>2\<close>.
\<close>

lemma binary64_eval:
  assumes "2 powi e \<le> \<bar>x\<bar>" and "\<bar>x\<bar> < 2 powi (e + 1)"
  shows "binary64 x = of_int (round_half_even (x * 2 powi (52 - e))) * 2 powi (e - 52)"
proof -
  have "0 < (2::real) powi e" by simp
  with assms(1) have "0 < \<bar>x\<bar>" by linarith
  then have "x \<noteq> 0" by simp
  moreover have "\<lfloor>log 2 \<bar>x\<bar>\<rfloor> = e" using assms by (rule floor_log2_eq)
  ultimately show ?thesis by (simp add: binary64_def)
qed

text \<open>
  The roundings met when \<open>new BeatDetector({sensitivity: 0.5})\<close> is fed the literal
  \<open>0.3\<close> ten times, in increasing order of the number that is rounded.
\<close>

lemma binary64_value_0: "binary64 (1 / 324518553658426726783156020576256) = 1 / 324518553658426726783156020576256"
  by (subst binary64_eval [where e = "- 108"]) (simp_all add: round_half_even_def Let_def)

lemma binary64_value_1: "binary64 (1 / 162259276829213363391578010288128) = 1 / 162259276829213363391578010288128"
  by (subst binary64_eval [where e = "- 107"]) (simp_all add: round_half_even_def Let_def)

lemma binary64_value_2: "binary64 (3 / 324518553658426726783156020576256) = 3 / 324518553658426726783156020576256"
  by (subst binary64_eval [where e = "- 107"]) (simp_all add: round_half_even_def Let_def)

lemma binary64_value_3: "binary64 (1 / 81129638414606681695789005144064) = 1 / 81129638414606681695789005144064"
  by (subst binary64_eval [where e = "- 106"]) (simp_all add: round_half_even_def Let_def)

lemma binary64_value_4: "binary64 (5 / 324518553658426726783156020576256) = 5 / 324518553658426726783156020576256"
  by (subst binary64_eval [where e = "- 106"]) (simp_all add: round_half_even_def Let_def)

lemma binary64_value_5: "binary64 (3 / 162259276829213363391578010288128) = 3 / 162259276829213363391578010288128"
  by (subst binary64_eval [where e = "- 106"]) (simp_all add: round_half_even_def Let_def)

lemma binary64_value_6: "binary64 (7 / 324518553658426726783156020576256) = 7 / 324518553658426726783156020576256"
  by (subst binary64_eval [where e = "- 106"]) (simp_all add: round_half_even_def Let_def)

lemma binary64_value_7: "binary64 (1 / 40564819207303340847894502572032) = 1 / 40564819207303340847894502572032"
  by (subst binary64_eval [where e = "- 105"]) (simp_all add: round_half_even_def Let_def)

lemma binary64_value_8: "binary64 (9 / 324518553658426726783156020576256) = 9 / 324518553658426726783156020576256"
  by (subst binary64_eval [where e = "- 105"]) (simp_all add: round_half_even_def Let_def)

lemma binary64_value_9: "binary64 (5 / 162259276829213363391578010288128) = 5 / 162259276829213363391578010288128"
  by (subst binary64_eval [where e = "- 105"]) (simp_all add: round_half_even_def Let_def)

lemma binary64_value_10: "binary64 (1 / 36028797018963968) = 1 / 36028797018963968"
  by (subst binary64_eval [where e = "- 55"]) (simp_all add: round_half_even_def Let_def)

lemma binary64_value_11: "binary64 (1 / 18014398509481984) = 1 / 18014398509481984"
  by (subst binary64_eval [where e = "- 54"]) (simp_all add: round_half_even_def Let_def)

lemma binary64_value_12: "binary64 (3802951800684689214894477627799 / 22835963083295358096932575511191922182123945984) = 3377699720527873 / 20282409603651670423947251286016"
  by (subst binary64_eval [where e = "- 53"]) (simp_all add: round_half_even_def Let_def)

lemma binary64_value_13: "binary64 (1 / 5584463537939414) = 453991897920413 / 2535301200456458802993406410752"
  by (subst binary64_eval [where e = "- 53"]) (simp_all add: round_half_even_def Let_def)

lemma binary64_value_14: "binary64 (1 / 100) = 5764607523034235 / 576460752303423488"
  by (subst binary64_eval [where e = "- 7"]) (simp_all add: round_half_even_def Let_def)

lemma binary64_value_15: "binary64 (2702159776422297 / 18014398509481984) = 2702159776422297 / 18014398509481984"
  by (subst binary64_eval [where e = "- 3"]) (simp_all add: round_half_even_def Let_def)

lemma binary64_value_16: "binary64 (6755399441055743 / 22517998136852480) = 2702159776422297 / 9007199254740992"
  by (subst binary64_eval [where e = "- 2"]) (simp_all add: round_half_even_def Let_def)

lemma binary64_value_17: "binary64 (10808639105689189 / 36028797018963968) = 2702159776422297 / 9007199254740992"
  by (subst binary64_eval [where e = "- 2"]) (simp_all add: round_half_even_def Let_def)

lemma binary64_value_18: "binary64 (5404319552844595 / 18014398509481984) = 5404319552844595 / 18014398509481984"
  by (subst binary64_eval [where e = "- 2"]) (simp_all add: round_half_even_def Let_def)

lemma binary64_value_19: "binary64 (3 / 10) = 5404319552844595 / 18014398509481984"
  by (subst binary64_eval [where e = "- 2"]) (simp_all add: round_half_even_def Let_def)

lemma binary64_value_20: "binary64 (178702833214061243 / 576460752303423488) = 2792231768969707 / 9007199254740992"
  by (subst binary64_eval [where e = "- 2"]) (simp_all add: round_half_even_def Let_def)

lemma binary64_value_21: "binary64 (1 / 2) = 1 / 2"
  by (subst binary64_eval [where e = "- 1"]) (simp_all add: round_half_even_def Let_def)

lemma binary64_value_22: "binary64 (5404319552844595 / 9007199254740992) = 5404319552844595 / 9007199254740992"
  by (subst binary64_eval [where e = "- 1"]) (simp_all add: round_half_even_def Let_def)

lemma binary64_value_23: "binary64 (16212958658533785 / 18014398509481984) = 2026619832316723 / 2251799813685248"
  by (subst binary64_eval [where e = "- 1"]) (simp_all add: round_half_even_def Let_def)

lemma binary64_value_24: "binary64 (93 / 100) = 8376695306909123 / 9007199254740992"
  by (subst binary64_eval [where e = "- 1"]) (simp_all add: round_half_even_def Let_def)

lemma binary64_value_25: "binary64 (21617278211378379 / 18014398509481984) = 5404319552844595 / 4503599627370496"
  by (subst binary64_eval [where e = "0"]) (simp_all add: round_half_even_def Let_def)

lemma binary64_value_26: "binary64 (27021597764222975 / 18014398509481984) = 3 / 2"
  by (subst binary64_eval [where e = "0"]) (simp_all add: round_half_even_def Let_def)

lemma binary64_value_27: "binary64 (32425917317067571 / 18014398509481984) = 8106479329266893 / 4503599627370496"
  by (subst binary64_eval [where e = "0"]) (simp_all add: round_half_even_def Let_def)

lemma binary64_value_28: "binary64 (37830236869912167 / 18014398509481984) = 4728779608739021 / 2251799813685248"
  by (subst binary64_eval [where e = "1"]) (simp_all add: round_half_even_def Let_def)

lemma binary64_value_29: "binary64 (43234556422756763 / 18014398509481984) = 5404319552844595 / 2251799813685248"
  by (subst binary64_eval [where e = "1"]) (simp_all add: round_half_even_def Let_def)

lemma binary64_value_30: "binary64 (48638875975601355 / 18014398509481984) = 6079859496950169 / 2251799813685248"
  by (subst binary64_eval [where e = "1"]) (simp_all add: round_half_even_def Let_def)

lemma binary64_value_31: "binary64 (54043195528445947 / 18014398509481984) = 6755399441055743 / 2251799813685248"
  by (subst binary64_eval [where e = "1"]) (simp_all add: round_half_even_def Let_def)

lemma binary64_value_32: "binary64 (30) = 30"
  by (subst binary64_eval [where e = "4"]) (simp_all add: round_half_even_def Let_def)

lemma binary64_value_33: "binary64 (180) = 180"
  by (subst binary64_eval [where e = "7"]) (simp_all add: round_half_even_def Let_def)

lemma binary64_value_34: "binary64 (1144) = 1144"
  by (subst binary64_eval [where e = "10"]) (simp_all add: round_half_even_def Let_def)

lemma sqrt_variance: "sqrt (1 / 324518553658426726783156020576256) = 1 / 18014398509481984"
  by (rule real_sqrt_unique) (simp_all add: power2_eq_square)

lemmas binary64_trace =
  binary64_value_0 binary64_value_1 binary64_value_2 binary64_value_3
  binary64_value_4 binary64_value_5 binary64_value_6 binary64_value_7
  binary64_value_8 binary64_value_9 binary64_value_10 binary64_value_11
  binary64_value_12 binary64_value_13 binary64_value_14 binary64_value_15
  binary64_value_16 binary64_value_17 binary64_value_18 binary64_value_19
  binary64_value_20 binary64_value_21 binary64_value_22 binary64_value_23
  binary64_value_24 binary64_value_25 binary64_value_26 binary64_value_27
  binary64_value_28 binary64_value_29 binary64_value_30 binary64_value_31
  binary64_value_32 binary64_value_33 binary64_value_34
  sqrt_variance

text \<open>
  Claim C4 fails on the code. \<open>new BeatDetector({sensitivity: 0.5})\<close> is fed the
  literal \<open>0.3\<close> ten times, 16 ms apart from 1000 ms on. The window then holds the
  ten equal samples, yet \<open>isBeat()\<close> is true after the tenth update: the ten
  additions and the division leave a mean of 0.29999999999999993, one unit in the last
  place under the sample, the deviation is \<open>2\<^sup>-\<^sup>5\<^sup>4\<close>, and mean plus half the
  deviation is a tie that rounds back to the mean, so the sample is above the
  threshold.
\<close>

theorem constant_energy_beats_in_binary64:
  "energyHistory
     (run_rounded binary64
        (constructor_rounded binary64 (default_options\<lparr>opt_sensitivity := Some (1 / 2)\<rparr>))
        (map (\<lambda>t. (binary64 (3 / 10), t))
           [1000, 1016, 1032, 1048, 1064, 1080, 1096, 1112, 1128, 1144])) =
     replicate 10 (binary64 (3 / 10)) \<and>
   isBeat
     (run_rounded binary64
        (constructor_rounded binary64 (default_options\<lparr>opt_sensitivity := Some (1 / 2)\<rparr>))
        (map (\<lambda>t. (binary64 (3 / 10), t))
           [1000, 1016, 1032, 1048, 1064, 1080, 1096, 1112, 1128, 1144]))"
  by (simp add: isBeat_def eval_nat_numeral constructor_rounded_def default_options_def
        or_default_def update_rounded_def updateTempoEstimate_rounded_def push_bounded_def
        Let_def power2_eq_square binary64_trace)

end
